theory Spec2Isabelle
  imports Complex_Main
begin

section \<open>Text\<close>

text \<open>
  A Python \<open>str\<close> is a sequence of Unicode code points, and \<open>len\<close> counts code points.
  The messages of \<open>bot.py\<close> contain symbols outside ASCII, so a text is a list of code
  points; the ASCII part of a literal is written as an Isabelle string and converted.
\<close>

type_synonym pystr = "nat list"

definition ascii :: "string \<Rightarrow> pystr" where
  "ascii s = map of_char s"

text \<open>\<open>str(n)\<close> for an integer: decimal digits, with a minus sign for a negative number.\<close>

fun digits :: "nat \<Rightarrow> pystr" where
  "digits n = (if n < 10 then [48 + n] else digits (n div 10) @ [48 + n mod 10])"

declare digits.simps [simp del]

definition str_of_int :: "int \<Rightarrow> pystr" where
  "str_of_int i = (if i < 0 then 45 # digits (nat (- i)) else digits (nat i))"

text \<open>\<open>sep.join(xs)\<close>.\<close>

fun join :: "pystr \<Rightarrow> pystr list \<Rightarrow> pystr" where
  "join sep [] = []"
| "join sep [x] = x"
| "join sep (x # y # ys) = x @ sep @ join sep (y # ys)"

text \<open>
  \<open>str.strip()\<close> removes leading and trailing whitespace. The whitespace code points
  below are the ones of ASCII (tab, line feed, vertical tab, form feed, carriage return,
  the four separators 28 to 31, and space) together with the Unicode white space of
  Python's \<open>str.isspace\<close>.
\<close>

definition is_space :: "nat \<Rightarrow> bool" where
  "is_space c = (c \<in> {9, 10, 11, 12, 13, 28, 29, 30, 31, 32, 133, 160, 5760,
     8192, 8193, 8194, 8195, 8196, 8197, 8198, 8199, 8200, 8201, 8202,
     8232, 8233, 8239, 8287, 12288})"

definition strip :: "pystr \<Rightarrow> pystr" where
  "strip s = rev (dropWhile is_space (rev (dropWhile is_space s)))"

section \<open>Session state\<close>

text \<open>
  The module keeps seven dictionaries keyed by the chat id (lines 46 to 52). A track is
  the dictionary the catalog returns; the model keeps the fields the handlers read.
  \<open>duration_ms\<close> is read with \<open>track.get("duration_ms", 0)\<close>, so it may be absent.
\<close>

record track =
  name :: pystr
  artists :: "pystr list"
  duration_ms :: "int option"
  external_urls_spotify :: pystr
  album_images :: "pystr list"

record state =
  search_results :: "int \<rightharpoonup> track list"
  current_page :: "int \<rightharpoonup> int"
  queries :: "int \<rightharpoonup> pystr"
  recent_queries :: "int \<rightharpoonup> pystr list"
  last_download_time :: "int \<rightharpoonup> int"
  result_message_id :: "int \<rightharpoonup> int"
  result_photo_id :: "int \<rightharpoonup> int"

definition ITEMS_PER_PAGE :: int where
  "ITEMS_PER_PAGE = 5"

text \<open>
  A \<open>datetime\<close> has microsecond resolution: a time is the number of microseconds since
  \<open>datetime.min\<close>, and a \<open>timedelta\<close> is a number of microseconds.
\<close>

definition datetime_min :: int where
  "datetime_min = 0"

definition DOWNLOAD_COOLDOWN :: int where
  "DOWNLOAD_COOLDOWN = 30 * 1000000"

definition SPOTDL_TIMEOUT :: real where
  "SPOTDL_TIMEOUT = 60"

text \<open>
  \<open>int(td.total_seconds())\<close> for a \<open>timedelta\<close> of \<open>us\<close> microseconds: the quotient by
  one million, truncated toward zero. (\<open>total_seconds\<close> is a float; for a delta below
  \<open>2 ^ 53\<close> microseconds, about 285 years, the float quotient truncates to the same
  integer as the exact one.)
\<close>

definition int_total_seconds :: "int \<Rightarrow> int" where
  "int_total_seconds us = (if 0 \<le> us then us div 1000000 else - ((- us) div 1000000))"

section \<open>What a handler does to the outside\<close>

datatype callback = Track_cb int | Prev_page | Next_page | Download_page

record button =
  button_text :: pystr
  callback_data :: callback

datatype action =
    Reply_text pystr
  | Send_message pystr
  | Send_keyboard pystr "button list list"
  | Send_photo pystr pystr
  | Edit_message_text pystr
  | Delete_message int
  | Schedule_message_delete int int
  | Catalog_search pystr
  | Create_subprocess "pystr list"
  | Communicate
  | Kill
  | Send_audio pystr pystr pystr pystr

section \<open>Reading a \<open>defaultdict\<close>\<close>

text \<open>
  \<open>last_download_time\<close> and \<open>recent_queries\<close> are \<open>defaultdict\<close>s: reading a missing
  key stores the default under it and returns it.
\<close>

definition defaultdict_get :: "'v \<Rightarrow> (int \<rightharpoonup> 'v) \<Rightarrow> int \<Rightarrow> 'v \<times> (int \<rightharpoonup> 'v)" where
  "defaultdict_get dflt m k = (case m k of None \<Rightarrow> (dflt, m(k \<mapsto> dflt)) | Some v \<Rightarrow> (v, m))"

section \<open>The cooldown check\<close>

definition please_wait_text :: "int \<Rightarrow> pystr" where
  "please_wait_text wait_time =
     [0x23F3] @ ascii '' Please wait '' @ str_of_int wait_time
       @ ascii '' seconds before downloading again.''"

text \<open>
  Lines 233 to 238 of \<open>select_song\<close> and lines 268 to 273 of \<open>download_page\<close> are the
  same text. \<open>Inl\<close> is the early return with its reply, \<open>Inr\<close> the state with which the
  handler goes on.
\<close>

definition cooldown_check :: "int \<Rightarrow> int \<Rightarrow> state \<Rightarrow> (action list \<times> state) + state" where
  "cooldown_check chat_id now st =
     (let (last, ldt) = defaultdict_get datetime_min (last_download_time st) chat_id;
          st1 = st\<lparr>last_download_time := ldt\<rparr>
      in if now - last < DOWNLOAD_COOLDOWN
         then let wait_time = int_total_seconds (DOWNLOAD_COOLDOWN - (now - last))
              in Inl ([Reply_text (please_wait_text wait_time)], st1)
         else Inr (st1\<lparr>last_download_time := ldt(chat_id \<mapsto> now)\<rparr>))"

section \<open>Recent queries\<close>

text \<open>Lines 110 to 113 of \<open>search_and_display\<close>.\<close>

definition remember_query :: "pystr \<Rightarrow> pystr list \<Rightarrow> pystr list" where
  "remember_query query recent =
     (if query \<notin> set recent
      then let recent1 = recent @ [query]
           in if length recent1 > 20 then tl recent1 else recent1
      else recent)"

section \<open>Lists as Python reads them\<close>

text \<open>\<open>xs[i]\<close>: a negative index counts from the end, and an index out of range raises.\<close>

definition index_error_text :: pystr where
  "index_error_text = ascii ''list index out of range''"

definition py_index :: "'a list \<Rightarrow> int \<Rightarrow> pystr + 'a" where
  "py_index xs i =
     (if - int (length xs) \<le> i \<and> i < 0 then Inr (xs ! nat (int (length xs) + i))
      else if 0 \<le> i \<and> i < int (length xs) then Inr (xs ! nat i)
      else Inl index_error_text)"

text \<open>\<open>xs[start:end]\<close>: a bound is taken from the end when negative, then clipped.\<close>

definition slice_bound :: "int \<Rightarrow> int \<Rightarrow> nat" where
  "slice_bound n i = nat (if i < 0 then max 0 (n + i) else min n i)"

definition py_slice :: "'a list \<Rightarrow> int \<Rightarrow> int \<Rightarrow> 'a list" where
  "py_slice xs start end =
     (let n = int (length xs); s = slice_bound n start; e = slice_bound n end
      in take (e - s) (drop s xs))"

text \<open>\<open>enumerate(xs, start=k)\<close>.\<close>

fun enumerate_from :: "int \<Rightarrow> 'a list \<Rightarrow> (int \<times> 'a) list" where
  "enumerate_from k [] = []"
| "enumerate_from k (x # xs) = (k, x) # enumerate_from (k + 1) xs"

section \<open>Showing a page of results\<close>

definition total_pages_of :: "int \<Rightarrow> int" where
  "total_pages_of total_tracks =
     max 1 \<lceil>real_of_int total_tracks / real_of_int ITEMS_PER_PAGE\<rceil>"

definition no_results_text :: pystr where
  "no_results_text = [0x274C] @ ascii '' No results found.''"

definition display_error_text :: "pystr \<Rightarrow> pystr" where
  "display_error_text e = [0x26A0, 0xFE0F] @ ascii '' Error: '' @ [0x60] @ e @ [0x60]"

definition results_caption :: "pystr \<Rightarrow> int \<Rightarrow> int \<Rightarrow> pystr" where
  "results_caption query page total_pages =
     [0x1F3A7] @ ascii '' *Results for:* '' @ [0x60] @ query @ [0x60] @ ascii '' (Page ''
       @ str_of_int page @ ascii ''/'' @ str_of_int total_pages @ ascii '')''"

definition choose_text :: pystr where
  "choose_text =
     [0x1F4CD] @ ascii '' *Choose a track to download or download the entire page:*''"

definition format_duration :: "int \<Rightarrow> pystr" where
  "format_duration ms =
     (let seconds = ms div 1000; minutes = seconds div 60; sec = seconds mod 60
      in str_of_int minutes @ ascii '':''
           @ (if sec < 10 then ascii ''0'' else []) @ str_of_int sec)"

definition artists_text :: "track \<Rightarrow> pystr" where
  "artists_text t = join (ascii '', '') (artists t)"

definition track_button :: "int \<times> track \<Rightarrow> button list" where
  "track_button it =
     (case it of (idx, t) \<Rightarrow>
        [\<lparr>button_text = name t @ [0x20, 0x2014, 0x20] @ artists_text t @ ascii '' [''
            @ format_duration (case duration_ms t of None \<Rightarrow> 0 | Some ms \<Rightarrow> ms) @ ascii '']'',
          callback_data = Track_cb idx\<rparr>])"

definition nav_buttons :: "int \<Rightarrow> int \<Rightarrow> button list" where
  "nav_buttons page total_pages =
     (if page > 1
      then [\<lparr>button_text = [0x2B05, 0xFE0F] @ ascii '' Back'', callback_data = Prev_page\<rparr>]
      else [])
     @ (if page < total_pages
        then [\<lparr>button_text = ascii ''Next '' @ [0x27A1, 0xFE0F], callback_data = Next_page\<rparr>]
        else [])"

definition download_page_button :: button where
  "download_page_button =
     \<lparr>button_text = [0x2B07, 0xFE0F] @ ascii '' Download This Page'',
      callback_data = Download_page\<rparr>"

text \<open>
  What the outside answers during one call of \<open>display_search_results\<close>: the catalog's
  tracks, or the text of the exception the search raised; the id of the photo message
  and of the results message, or \<open>None\<close> when the send raised.
\<close>

record search_env =
  search_response :: "pystr + track list"
  photo_sent :: "int option"
  message_sent :: "int option"

text \<open>Lines 148 to 154: the two remembered messages are deleted and forgotten.\<close>

definition retire_pinned :: "int \<Rightarrow> state \<Rightarrow> action list \<times> state" where
  "retire_pinned chat_id st =
     ((case result_message_id st chat_id of None \<Rightarrow> [] | Some m \<Rightarrow> [Delete_message m])
        @ (case result_photo_id st chat_id of None \<Rightarrow> [] | Some m \<Rightarrow> [Delete_message m]),
      st\<lparr>result_message_id := (result_message_id st)(chat_id := None),
         result_photo_id := (result_photo_id st)(chat_id := None)\<rparr>)"

definition display_search_results ::
  "search_env \<Rightarrow> int \<Rightarrow> pystr \<Rightarrow> int \<Rightarrow> state \<Rightarrow> action list \<times> state" where
  "display_search_results env chat_id query page st =
     (case search_response env of
        Inl e \<Rightarrow> ([Catalog_search query, Send_message (display_error_text e)], st)
      | Inr tracks \<Rightarrow>
          if tracks = [] then ([Catalog_search query, Send_message no_results_text], st)
          else
            let st1 = st\<lparr>search_results := (search_results st)(chat_id \<mapsto> tracks),
                         current_page := (current_page st)(chat_id \<mapsto> page),
                         queries := (queries st)(chat_id \<mapsto> query)\<rparr>;
                total_tracks = int (length tracks);
                total_pages = total_pages_of total_tracks;
                page1 = max 1 (min page total_pages);
                start = (page1 - 1) * ITEMS_PER_PAGE;
                end = start + ITEMS_PER_PAGE;
                poster_url = (case album_images (hd tracks) of [] \<Rightarrow> [] | u # _ \<Rightarrow> u);
                (deleted, st2) = retire_pinned chat_id st1;
                (photo, st3) =
                  (if poster_url \<noteq> []
                   then (case photo_sent env of
                           Some m \<Rightarrow>
                             ([Send_photo poster_url (results_caption query page1 total_pages),
                               Schedule_message_delete m 60],
                              st2\<lparr>result_photo_id := (result_photo_id st2)(chat_id \<mapsto> m)\<rparr>)
                         | None \<Rightarrow>
                             ([Send_photo poster_url (results_caption query page1 total_pages)],
                              st2))
                   else ([], st2));
                rows = map track_button (enumerate_from start (py_slice tracks start end));
                nav = nav_buttons page1 total_pages;
                keyboard = rows @ (if nav \<noteq> [] then [nav] else []) @ [[download_page_button]];
                (sent, st4) =
                  (case message_sent env of
                     Some m \<Rightarrow>
                       ([Send_keyboard choose_text keyboard, Schedule_message_delete m 60],
                        st3\<lparr>result_message_id := (result_message_id st3)(chat_id \<mapsto> m)\<rparr>)
                   | None \<Rightarrow> ([Send_keyboard choose_text keyboard], st3))
            in (Catalog_search query # deleted @ photo @ sent, st4))"

section \<open>A search\<close>

definition provide_term_text :: pystr where
  "provide_term_text = [0x2757] @ ascii '' Please provide a search term.''"

definition search_and_display ::
  "search_env \<Rightarrow> int \<Rightarrow> pystr \<Rightarrow> state \<Rightarrow> action list \<times> state" where
  "search_and_display env chat_id message_text st =
     (let query = strip message_text
      in if query = [] then ([Reply_text provide_term_text], st)
         else
           let (recent, rq) = defaultdict_get [] (recent_queries st) chat_id;
               st1 = st\<lparr>recent_queries := rq(chat_id \<mapsto> remember_query query recent)\<rparr>
           in display_search_results env chat_id query 1 st1)"

section \<open>Turning a page\<close>

definition session_expired_text :: pystr where
  "session_expired_text = [0x2757] @ ascii '' Session expired. Please search again.''"

text \<open>
  \<open>callback\<close> is the \<open>query.data\<close> of the button; the handler is registered for the
  pattern \<open>prev_page|next_page\<close> and compares the data with both names.
\<close>

definition handle_pagination ::
  "search_env \<Rightarrow> int \<Rightarrow> callback \<Rightarrow> state \<Rightarrow> action list \<times> state" where
  "handle_pagination env chat_id data st =
     (case (current_page st chat_id, queries st chat_id) of
        (Some p, Some q) \<Rightarrow>
          let p1 = (if data = Next_page then p + 1
                    else if data = Prev_page then p - 1 else p);
              total_tracks =
                int (length (case search_results st chat_id of None \<Rightarrow> [] | Some r \<Rightarrow> r));
              total_pages = total_pages_of total_tracks;
              p2 = max 1 (min p1 total_pages);
              st1 = st\<lparr>current_page := (current_page st)(chat_id \<mapsto> p2)\<rparr>
          in display_search_results env chat_id q p2 st1
      | _ \<Rightarrow> ([Reply_text session_expired_text], st))"

section \<open>Finding the audio file\<close>

text \<open>
  The scratch directory as \<open>os.walk\<close> sees it: the names of the files of a directory
  and its subdirectories with their names, both in the order the directory lists them.
\<close>

datatype dir = Dir (files: "pystr list") (subdirs: "(pystr \<times> dir) list")

text \<open>\<open>os.path.join(a, b)\<close> on POSIX.\<close>

definition path_join :: "pystr \<Rightarrow> pystr \<Rightarrow> pystr" where
  "path_join a b =
     (if b \<noteq> [] \<and> hd b = 47 then b
      else if a = [] \<or> last a = 47 then a @ b
      else a @ [47] @ b)"

text \<open>
  \<open>os.walk(top)\<close>, top down: the triple of the directory itself, then the walk of each
  subdirectory in turn.
\<close>

fun os_walk :: "pystr \<Rightarrow> dir \<Rightarrow> (pystr \<times> pystr list \<times> pystr list) list" where
  "os_walk topdir (Dir fs ds) =
     (topdir, map fst ds, fs)
       # concat (map (\<lambda>p. os_walk (path_join topdir (fst p)) (snd p)) ds)"

text \<open>
  \<open>str.lower()\<close> on the letters of ASCII, and \<open>str.endswith\<close>. (No character outside
  ASCII has a lower case that contains one of the four characters of \<open>.mp3\<close>.)
\<close>

definition lower :: "pystr \<Rightarrow> pystr" where
  "lower s = map (\<lambda>c. if 65 \<le> c \<and> c \<le> 90 then c + 32 else c) s"

definition endswith :: "pystr \<Rightarrow> pystr \<Rightarrow> bool" where
  "endswith s suf = (length suf \<le> length s \<and> drop (length s - length suf) s = suf)"

definition is_mp3 :: "pystr \<Rightarrow> bool" where
  "is_mp3 f = endswith (lower f) (ascii ''.mp3'')"

fun find_mp3_walk :: "(pystr \<times> pystr list \<times> pystr list) list \<Rightarrow> pystr option" where
  "find_mp3_walk [] = None"
| "find_mp3_walk ((rootdir, dirs, fs) # rest) =
     (case List.find is_mp3 fs of
        Some f \<Rightarrow> Some (path_join rootdir f)
      | None \<Rightarrow> find_mp3_walk rest)"

definition find_mp3_file :: "pystr \<Rightarrow> dir \<Rightarrow> pystr option" where
  "find_mp3_file directory tree = find_mp3_walk (os_walk directory tree)"

section \<open>One download\<close>

text \<open>
  What the outside does during one call of \<open>download_and_send_audio\<close>: the name of the
  temporary directory; how many seconds the creation of the subprocess takes and the
  text of the exception it raises, if any; how many seconds the process runs; its return
  code; its two streams decoded (\<open>Inl\<close> is the text of the decoding error); the content
  of the temporary directory when the process has exited; the text of the exception that
  opening the found file raises, if any; whether \<open>send_audio\<close> raises.
\<close>

record download_env =
  tmpdirname :: pystr
  create_seconds :: real
  create_raises :: "pystr option"
  communicate_seconds :: real
  returncode :: int
  stdout_decoded :: "pystr + pystr"
  stderr_decoded :: "pystr + pystr"
  scratch :: dir
  open_raises :: "pystr option"
  send_audio_raises :: bool

text \<open>
  \<open>asyncio.wait_for(aw, timeout)\<close>: an awaitable is the time it takes and what it gives;
  waiting gives \<open>None\<close> (\<open>TimeoutError\<close>) when it takes longer than the timeout.
\<close>

definition wait_for :: "real \<times> 'a \<Rightarrow> real \<Rightarrow> 'a option" where
  "wait_for aw timeout = (if timeout < fst aw then None else Some (snd aw))"

definition setup_timed_out_text :: pystr where
  "setup_timed_out_text = [0x274C] @ ascii '' Download setup timed out.''"

definition timed_out_text :: pystr where
  "timed_out_text = [0x274C] @ ascii '' Download timed out after 60 seconds.''"

definition download_failed_text :: "pystr \<Rightarrow> pystr" where
  "download_failed_text stderr_text =
     [0x274C] @ ascii '' Download failed:'' @ [0x0A, 0x60] @ stderr_text @ [0x60]"

definition no_mp3_text :: pystr where
  "no_mp3_text =
     [0x274C] @ ascii '' Download failed. No MP3 file found. (Check log for spotDL output.)''"

definition send_audio_error_text :: pystr where
  "send_audio_error_text = [0x26A0, 0xFE0F] @ ascii '' Error sending audio to Telegram.''"

definition error_occurred_text :: "pystr \<Rightarrow> pystr" where
  "error_occurred_text e = [0x26A0, 0xFE0F] @ ascii '' Error occurred: '' @ e"

definition downloaded_caption :: pystr where
  "downloaded_caption =
     [0x2705] @ ascii '' *Downloaded successfully!*'' @ [0x0A] @ ascii ''_Created with ''
       @ [0x2764, 0xFE0F] @ ascii '' by Lokesh.R_''"

text \<open>\<open>query_message.reply_text(msg)\<close> if there is a query message, else \<open>send_message\<close>.\<close>

definition notify :: "bool \<Rightarrow> pystr \<Rightarrow> action" where
  "notify query_message msg = (if query_message then Reply_text msg else Send_message msg)"

definition spotdl_command :: "pystr \<Rightarrow> pystr \<Rightarrow> pystr list" where
  "spotdl_command spotify_url dirname =
     [ascii ''spotdl'', ascii ''download'', spotify_url, ascii ''--output'', dirname]"

definition download_and_send_audio ::
  "download_env \<Rightarrow> pystr \<Rightarrow> pystr \<Rightarrow> pystr \<Rightarrow> pystr option \<Rightarrow> bool \<Rightarrow> action list" where
  "download_and_send_audio env spotify_url title performer caption_override query_message =
     (let command = spotdl_command spotify_url (tmpdirname env)
      in case wait_for (create_seconds env, create_raises env) 5 of
           None \<Rightarrow> [Create_subprocess command, notify query_message setup_timed_out_text]
         | Some (Some e) \<Rightarrow>
             [Create_subprocess command, notify query_message (error_occurred_text e)]
         | Some None \<Rightarrow>
             (case wait_for (communicate_seconds env, ()) SPOTDL_TIMEOUT of
                None \<Rightarrow>
                  [Create_subprocess command, Communicate, Kill,
                   notify query_message timed_out_text]
              | Some _ \<Rightarrow>
                  if returncode env \<noteq> 0
                  then (case stderr_decoded env of
                          Inl e \<Rightarrow>
                            [Create_subprocess command, Communicate,
                             notify query_message (error_occurred_text e)]
                        | Inr stderr_text \<Rightarrow>
                            [Create_subprocess command, Communicate,
                             notify query_message (download_failed_text stderr_text)])
                  else
                    (case find_mp3_file (tmpdirname env) (scratch env) of
                       None \<Rightarrow>
                         (case (stdout_decoded env, stderr_decoded env) of
                            (Inl e, _) \<Rightarrow>
                              [Create_subprocess command, Communicate,
                               notify query_message (error_occurred_text e)]
                          | (Inr _, Inl e) \<Rightarrow>
                              [Create_subprocess command, Communicate,
                               notify query_message (error_occurred_text e)]
                          | (Inr _, Inr _) \<Rightarrow>
                              [Create_subprocess command, Communicate,
                               notify query_message no_mp3_text])
                     | Some mp3_path \<Rightarrow>
                         (case open_raises env of
                            Some e \<Rightarrow>
                              [Create_subprocess command, Communicate,
                               notify query_message (error_occurred_text e)]
                          | None \<Rightarrow>
                              [Create_subprocess command, Communicate,
                               Send_audio mp3_path title performer
                                 (case caption_override of
                                    None \<Rightarrow> downloaded_caption
                                  | Some c \<Rightarrow> if c = [] then downloaded_caption else c)]
                              @ (if send_audio_raises env
                                 then [notify query_message send_audio_error_text]
                                 else [])))))"

section \<open>Choosing a track\<close>

definition selected_text :: "pystr \<Rightarrow> pystr \<Rightarrow> pystr" where
  "selected_text track_name artist =
     [0x1F3B6] @ ascii '' Selected: *'' @ track_name @ ascii ''* by *'' @ artist @ ascii ''*''
       @ [0x0A, 0x0A, 0x23F3] @ ascii '' Downloading...''"

definition select_error_text :: "pystr \<Rightarrow> pystr" where
  "select_error_text e =
     [0x26A0, 0xFE0F] @ ascii '' Error: '' @ e @ [0x0A, 0x0A] @ ascii ''_Created with ''
       @ [0x2764, 0xFE0F] @ ascii '' by Lokesh.R_''"

text \<open>
  \<open>parsed\<close> is what \<open>int(query.data.split("_")[1])\<close> gives for the data of the button:
  the index, or the text of the \<open>ValueError\<close> when the part after \<open>track_\<close> is not a
  number.
\<close>

definition select_song ::
  "download_env \<Rightarrow> int \<Rightarrow> int \<Rightarrow> pystr + int \<Rightarrow> state \<Rightarrow> action list \<times> state" where
  "select_song env chat_id now parsed st =
     (case cooldown_check chat_id now st of
        Inl denied \<Rightarrow> denied
      | Inr st1 \<Rightarrow>
          (case search_results st1 chat_id of
             None \<Rightarrow> ([Reply_text session_expired_text], st1)
           | Some results \<Rightarrow>
               (case parsed of
                  Inl e \<Rightarrow> ([Reply_text (select_error_text e)], st1)
                | Inr track_index \<Rightarrow>
                    (case py_index results track_index of
                       Inl e \<Rightarrow> ([Reply_text (select_error_text e)], st1)
                     | Inr t \<Rightarrow>
                         (Edit_message_text (selected_text (name t) (artists_text t))
                            # download_and_send_audio env (external_urls_spotify t) (name t)
                                (artists_text t) None True,
                          st1)))))"

section \<open>Downloading a page\<close>

definition downloading_page_text :: "int \<Rightarrow> pystr" where
  "downloading_page_text page =
     [0x2B07, 0xFE0F] @ ascii '' Downloading all songs on page '' @ str_of_int page
       @ ascii ''...'' @ [0x0A, 0x0A, 0x23F3] @ ascii '' Please wait...''"

definition page_caption :: "pystr \<Rightarrow> pystr \<Rightarrow> pystr" where
  "page_caption track_name artist =
     [0x2705] @ ascii '' *Downloaded: '' @ track_name @ ascii ''*'' @ [0x0A, 0x1F464]
       @ ascii '' *Artist:* '' @ artist @ [0x0A, 0x0A]
       @ ascii ''_Thanks for using LyricCraft! '' @ [0x2764, 0xFE0F]
       @ ascii '' Created by Lokesh.R_''"

definition finished_text :: pystr where
  "finished_text =
     [0x2714, 0xFE0F] @ ascii '' Finished downloading all songs on this page.''"

text \<open>
  The loop of lines 290 to 304: the tracks of the page one after the other, each with
  what the outside does during its download.
\<close>

fun download_tracks :: "(nat \<Rightarrow> download_env) \<Rightarrow> nat \<Rightarrow> track list \<Rightarrow> action list" where
  "download_tracks envs k [] = []"
| "download_tracks envs k (t # ts) =
     download_and_send_audio (envs k) (external_urls_spotify t) (name t) (artists_text t)
       (Some (page_caption (name t) (artists_text t))) True
     @ download_tracks envs (Suc k) ts"

definition download_page ::
  "(nat \<Rightarrow> download_env) \<Rightarrow> int \<Rightarrow> int \<Rightarrow> state \<Rightarrow> action list \<times> state" where
  "download_page envs chat_id now st =
     (case cooldown_check chat_id now st of
        Inl denied \<Rightarrow> denied
      | Inr st1 \<Rightarrow>
          (case (search_results st1 chat_id, current_page st1 chat_id) of
             (Some tracks, Some page) \<Rightarrow>
               let start = (page - 1) * ITEMS_PER_PAGE;
                   end = start + ITEMS_PER_PAGE;
                   page_tracks = py_slice tracks start end
               in (Edit_message_text (downloading_page_text page)
                     # download_tracks envs 0 page_tracks @ [Reply_text finished_text],
                   st1)
           | _ \<Rightarrow> ([Reply_text session_expired_text], st1)))"

section \<open>Events\<close>

text \<open>
  The four handlers that \<open>main\<close> registers for a text message and for the three kinds of
  button, with what each one reads from the update and from the outside.
\<close>

datatype event =
    Search search_env pystr
  | Navigate search_env callback
  | Select download_env int "pystr + int"
  | Download "nat \<Rightarrow> download_env" int

fun handle :: "int \<Rightarrow> event \<Rightarrow> state \<Rightarrow> action list \<times> state" where
  "handle chat_id (Search env message_text) st = search_and_display env chat_id message_text st"
| "handle chat_id (Navigate env data) st = handle_pagination env chat_id data st"
| "handle chat_id (Select env now parsed) st = select_song env chat_id now parsed st"
| "handle chat_id (Download envs now) st = download_page envs chat_id now st"

definition initial :: state where
  "initial = \<lparr>search_results = Map.empty, current_page = Map.empty, queries = Map.empty,
     recent_queries = Map.empty, last_download_time = Map.empty,
     result_message_id = Map.empty, result_photo_id = Map.empty\<rparr>"

text \<open>The state after a sequence of events, each with the chat it comes from.\<close>

fun run :: "(int \<times> event) list \<Rightarrow> state \<Rightarrow> state" where
  "run [] st = st"
| "run ((chat_id, e) # es) st = run es (snd (handle chat_id e st))"

text \<open>The timestamp and the history the handlers read for a chat.\<close>

definition last_download_of :: "state \<Rightarrow> int \<Rightarrow> int" where
  "last_download_of st chat_id =
     (case last_download_time st chat_id of None \<Rightarrow> datetime_min | Some t \<Rightarrow> t)"

definition recent_of :: "state \<Rightarrow> int \<Rightarrow> pystr list" where
  "recent_of st chat_id = (case recent_queries st chat_id of None \<Rightarrow> [] | Some r \<Rightarrow> r)"

section \<open>Predicates of the statements\<close>

text \<open>The history of every chat has at most twenty entries, all different.\<close>

definition recent_ok :: "state \<Rightarrow> bool" where
  "recent_ok st = (\<forall>c. distinct (recent_of st c) \<and> length (recent_of st c) \<le> 20)"





text \<open>
  A chat either has no results, page and query at all, or has all three, with at least
  one result.
\<close>

definition session_ok :: "state \<Rightarrow> bool" where
  "session_ok st = (\<forall>c.
     (search_results st c = None \<and> current_page st c = None \<and> queries st c = None) \<or>
     (\<exists>r p q. search_results st c = Some r \<and> r \<noteq> [] \<and> current_page st c = Some p \<and>
        queries st c = Some q))"

section \<open>Concrete inputs\<close>

text \<open>A catalog that finds nothing, and searches of chat 7 for the given words.\<close>

definition quiet_search :: search_env where
  "quiet_search = \<lparr>search_response = Inr [], photo_sent = None, message_sent = None\<rparr>"

definition searches :: "string list \<Rightarrow> (int \<times> event) list" where
  "searches qs = map (\<lambda>q. (7, Search quiet_search (ascii q))) qs"

definition twenty :: "string list" where
  "twenty = [''a'', ''b'', ''c'', ''d'', ''e'', ''f'', ''g'', ''h'', ''i'', ''j'',
     ''k'', ''l'', ''m'', ''n'', ''o'', ''p'', ''q'', ''r'', ''s'', ''t'']"

text \<open>A track, a download that leaves its file two directories deep, and one that fails.\<close>

definition example_track :: track where
  "example_track =
     \<lparr>name = ascii ''Imagine'', artists = [ascii ''John Lennon''],
      duration_ms = Some 183000,
      external_urls_spotify = ascii ''https://open.spotify.com/track/7pKfPomDEeI4TPT6EOYjn9'',
      album_images = [ascii ''https://i.scdn.co/image/0001'']\<rparr>"

definition example_download :: download_env where
  "example_download =
     \<lparr>tmpdirname = ascii ''/tmp/tmpk3v9'', create_seconds = 1 / 10, create_raises = None,
      communicate_seconds = 12, returncode = 0,
      stdout_decoded = Inr (ascii ''Downloaded 1 song''), stderr_decoded = Inr [],
      scratch = Dir [ascii ''.spotdl-cache'']
        [(ascii ''output'', Dir [] [(ascii ''sub'', Dir [ascii ''track.mp3''] [])])],
      open_raises = None, send_audio_raises = False\<rparr>"

definition failing_download :: download_env where
  "failing_download =
     example_download\<lparr>returncode := 1, stderr_decoded := Inr (ascii ''LookupError: no results''),
       scratch := Dir [] []\<rparr>"

text \<open>Chat 7 after a first download request, at noon of 3 November 2026 (in microseconds
  since \<open>datetime.min\<close>).\<close>

definition after_first_request :: state where
  "after_first_request = run [(7, Select example_download 63929304000000000 (Inr 0))] initial"

text \<open>A catalog that finds twelve tracks, and chat 7 after a search with it.\<close>

definition found_search :: search_env where
  "found_search =
     \<lparr>search_response = Inr (replicate 12 example_track), photo_sent = Some 501,
      message_sent = Some 502\<rparr>"

definition after_search :: state where
  "after_search = run [(7, Search found_search (ascii ''Imagine''))] initial"


text \<open>A catalog that now finds three other tracks for the same query.\<close>

definition other_track :: track where
  "other_track =
     \<lparr>name = ascii ''Imagine Dragons Mix'', artists = [ascii ''Various'', ascii ''Others''],
      duration_ms = None,
      external_urls_spotify = ascii ''https://open.spotify.com/track/0000000000000000000002'',
      album_images = []\<rparr>"

definition other_search :: search_env where
  "other_search =
     \<lparr>search_response = Inr [other_track, other_track, other_track], photo_sent = None,
      message_sent = Some 610\<rparr>"

text \<open>A download whose process is slow to start, and one whose process does not end.\<close>

definition slow_start :: download_env where
  "slow_start = example_download\<lparr>create_seconds := 6\<rparr>"

definition slow_run :: download_env where
  "slow_run = example_download\<lparr>communicate_seconds := 61\<rparr>"







section \<open>Closed forms of the handlers\<close>

lemma display_search_results_failed:
  "search_response env = Inl e \<Longrightarrow>
   display_search_results env c q p st =
     ([Catalog_search q, Send_message (display_error_text e)], st)"
  by (simp add: display_search_results_def)

lemma display_search_results_empty:
  "search_response env = Inr [] \<Longrightarrow>
   display_search_results env c q p st = ([Catalog_search q, Send_message no_results_text], st)"
  by (simp add: display_search_results_def)

lemma display_search_results_state:
  "search_response env = Inr tracks \<Longrightarrow> tracks \<noteq> [] \<Longrightarrow>
   snd (display_search_results env c q p st) =
     st\<lparr>search_results := (search_results st)(c \<mapsto> tracks),
        current_page := (current_page st)(c \<mapsto> p),
        queries := (queries st)(c \<mapsto> q),
        result_message_id := (result_message_id st)(c := message_sent env),
        result_photo_id := (result_photo_id st)
          (c := (if (case album_images (hd tracks) of [] \<Rightarrow> [] | u # _ \<Rightarrow> u) \<noteq> []
                 then photo_sent env else None))\<rparr>"
  by (simp add: display_search_results_def retire_pinned_def Let_def split_beta
      split: option.split)

lemma cooldown_check_denied:
  "now - last_download_of st c < DOWNLOAD_COOLDOWN \<Longrightarrow>
   cooldown_check c now st =
     Inl ([Reply_text (please_wait_text
            (int_total_seconds (DOWNLOAD_COOLDOWN - (now - last_download_of st c))))],
          st\<lparr>last_download_time := (last_download_time st)(c \<mapsto> last_download_of st c)\<rparr>)"
  by (auto simp: cooldown_check_def defaultdict_get_def last_download_of_def map_upd_triv
      split: option.splits)

lemma cooldown_check_allowed:
  "DOWNLOAD_COOLDOWN \<le> now - last_download_of st c \<Longrightarrow>
   cooldown_check c now st = Inr (st\<lparr>last_download_time := (last_download_time st)(c \<mapsto> now)\<rparr>)"
  by (auto simp: cooldown_check_def defaultdict_get_def last_download_of_def
      split: option.splits)

lemma display_search_results_recent:
  "recent_queries (snd (display_search_results env c q p st)) = recent_queries st"
proof (cases "search_response env")
  case (Inl e)
  then show ?thesis by (simp add: display_search_results_failed)
next
  case (Inr tracks)
  then show ?thesis
    by (cases "tracks = []")
      (simp_all add: display_search_results_empty display_search_results_state)
qed

lemma select_song_state:
  "snd (select_song env c now parsed st) =
     st\<lparr>last_download_time := (last_download_time st)
       (c \<mapsto> (if now - last_download_of st c < DOWNLOAD_COOLDOWN
              then last_download_of st c else now))\<rparr>"
proof (cases "now - last_download_of st c < DOWNLOAD_COOLDOWN")
  case True
  then show ?thesis by (simp add: select_song_def cooldown_check_denied)
next
  case False
  then show ?thesis
    by (simp add: select_song_def cooldown_check_allowed split: option.split sum.split)
qed

lemma download_page_state:
  "snd (download_page envs c now st) =
     st\<lparr>last_download_time := (last_download_time st)
       (c \<mapsto> (if now - last_download_of st c < DOWNLOAD_COOLDOWN
              then last_download_of st c else now))\<rparr>"
proof (cases "now - last_download_of st c < DOWNLOAD_COOLDOWN")
  case True
  then show ?thesis by (simp add: download_page_def cooldown_check_denied)
next
  case False
  then show ?thesis
    by (simp add: download_page_def cooldown_check_allowed Let_def split: option.split)
qed

lemma handle_pagination_recent:
  "recent_queries (snd (handle_pagination env c data st)) = recent_queries st"
  by (simp add: handle_pagination_def Let_def display_search_results_recent
      split: option.split)

lemma remember_query_inv:
  "distinct r \<Longrightarrow> length r \<le> 20 \<Longrightarrow>
   distinct (remember_query q r) \<and> length (remember_query q r) \<le> 20"
  by (cases r) (auto simp: remember_query_def Let_def)

lemma recent_of_search:
  "recent_of (snd (search_and_display env c msg st)) c' =
     (if c' = c \<and> strip msg \<noteq> [] then remember_query (strip msg) (recent_of st c)
      else recent_of st c')"
  by (simp add: search_and_display_def Let_def split_beta recent_of_def
      display_search_results_recent defaultdict_get_def split: option.split)

lemma recent_of_handle_other:
  "\<not> (\<exists>env msg. e = Search env msg) \<Longrightarrow> recent_of (snd (handle c e st)) c' = recent_of st c'"
  by (cases e)
    (simp_all add: recent_of_def handle_pagination_recent select_song_state download_page_state)

section \<open>Recent queries stay short and free of duplicates\<close>

lemma recent_ok_handle: "recent_ok st \<Longrightarrow> recent_ok (snd (handle c e st))"
proof (cases "\<exists>env msg. e = Search env msg")
  case True
  assume ok: "recent_ok st"
  from True obtain env msg where e: "e = Search env msg" by blast
  show ?thesis
    unfolding recent_ok_def e handle.simps recent_of_search
    using ok remember_query_inv [of "recent_of st c" "strip msg"]
    by (simp add: recent_ok_def)
next
  case False
  assume "recent_ok st"
  with False show ?thesis
    by (simp add: recent_ok_def recent_of_handle_other)
qed

lemma recent_ok_run: "recent_ok st \<Longrightarrow> recent_ok (run evs st)"
proof (induction evs arbitrary: st)
  case Nil
  then show ?case by simp
next
  case (Cons ev evs)
  obtain c e where ev: "ev = (c, e)" by (cases ev)
  from Cons.prems have "recent_ok (snd (handle c e st))" by (rule recent_ok_handle)
  then show ?case unfolding ev run.simps by (rule Cons.IH)
qed

lemma recent_ok_initial: "recent_ok initial"
  by (simp add: recent_ok_def recent_of_def initial_def)

text \<open>
  Claim C8. After any sequence of events, the history \<open>recent_queries\<close> of a chat has at
  most 20 entries and no entry twice. A search for a query that is already in the history
  leaves the history as it is; a search for a new query puts it at the end, and when the
  history already has 20 entries the oldest one is dropped.
\<close>

theorem recent_queries_bounded_distinct:
  "let st = run evs initial; r = recent_of st c; q = strip msg;
       r' = recent_of (snd (search_and_display env c msg st)) c
   in length r \<le> 20 \<and> distinct r \<and>
      (q \<in> set r \<longrightarrow> r' = r) \<and>
      (q \<noteq> [] \<and> q \<notin> set r \<and> length r < 20 \<longrightarrow> r' = r @ [q]) \<and>
      (q \<noteq> [] \<and> q \<notin> set r \<and> length r = 20 \<longrightarrow> r' = tl r @ [q])"
proof -
  have "recent_ok (run evs initial)"
    using recent_ok_initial by (rule recent_ok_run)
  then have "length (recent_of (run evs initial) c) \<le> 20 \<and> distinct (recent_of (run evs initial) c)"
    by (simp add: recent_ok_def)
  then show ?thesis
    by (cases "recent_of (run evs initial) c")
      (auto simp: Let_def recent_of_search remember_query_def)
qed

lemma strip_letter: "97 \<le> c \<Longrightarrow> c \<le> 122 \<Longrightarrow> strip [c] = [c]"
  by (auto simp: strip_def is_space_def)

lemma recent_of_initial: "recent_of initial c = []"
  by (simp add: recent_of_def initial_def)

lemma recent_two:
  "recent_of (run (searches [''u'', ''v'']) initial) 7 = [ascii ''u'', ascii ''v'']"
  by (simp add: searches_def recent_of_search ascii_def strip_letter
       remember_query_def recent_of_initial)

lemma recent_twenty: "recent_of (run (searches twenty) initial) 7 = map ascii twenty"
  by (simp add: searches_def twenty_def recent_of_search ascii_def strip_letter
       remember_query_def recent_of_initial)

theorem recent_queries_bounded_distinct_witness:
  "recent_of (snd (search_and_display quiet_search 7 (ascii '' u '')
      (run (searches [''u'', ''v'']) initial))) 7 = [ascii ''u'', ascii ''v''] \<and>
   recent_of (snd (search_and_display quiet_search 7 (ascii ''w'')
      (run (searches [''u'', ''v'']) initial))) 7 = [ascii ''u'', ascii ''v'', ascii ''w''] \<and>
   recent_of (snd (search_and_display quiet_search 7 (ascii ''u'')
      (run (searches twenty) initial))) 7 = map ascii (tl twenty @ [''u''])"
proof -
  have s1: "strip (ascii '' u '') = ascii ''u''"
    by (simp add: ascii_def strip_def is_space_def)
  have s2: "strip (ascii ''w'') = ascii ''w''" "strip (ascii ''u'') = ascii ''u''"
    by (simp_all add: ascii_def strip_letter)
  have a: "recent_of (snd (search_and_display quiet_search 7 (ascii '' u '')
      (run (searches [''u'', ''v'']) initial))) 7 = [ascii ''u'', ascii ''v'']"
    using recent_queries_bounded_distinct
      [of "searches [''u'', ''v'']" 7 "ascii '' u ''" quiet_search]
    unfolding Let_def recent_two s1 by simp
  have b: "recent_of (snd (search_and_display quiet_search 7 (ascii ''w'')
      (run (searches [''u'', ''v'']) initial))) 7 = [ascii ''u'', ascii ''v'', ascii ''w'']"
    using recent_queries_bounded_distinct
      [of "searches [''u'', ''v'']" 7 "ascii ''w''" quiet_search]
    unfolding Let_def recent_two s2 by (simp add: ascii_def)
  have c: "recent_of (snd (search_and_display quiet_search 7 (ascii ''u'')
      (run (searches twenty) initial))) 7 = map ascii (tl twenty @ [''u''])"
    using recent_queries_bounded_distinct
      [of "searches twenty" 7 "ascii ''u''" quiet_search]
    unfolding Let_def recent_twenty s2 by (simp add: ascii_def twenty_def)
  from a b c show ?thesis by blast
qed


section \<open>The cooldown between downloads\<close>

lemma please_wait_text_hd: "hd (please_wait_text w) = 0x23F3"
  by (simp add: please_wait_text_def)

lemma please_wait_text_differs:
  "please_wait_text w \<noteq> session_expired_text"
  "please_wait_text w \<noteq> select_error_text e"
  "please_wait_text w \<noteq> finished_text"
  by (simp_all add: please_wait_text_def session_expired_text_def select_error_text_def
      finished_text_def)

lemma notify_not_please_wait:
  "hd msg \<noteq> 0x23F3 \<Longrightarrow> Reply_text (please_wait_text w) \<noteq> notify qm msg"
  using please_wait_text_hd [of w] by (auto simp: notify_def)

lemma download_not_please_wait:
  "Reply_text (please_wait_text w) \<notin> set (download_and_send_audio env u t p cap qm)"
  by (simp add: download_and_send_audio_def Let_def wait_for_def notify_not_please_wait
      setup_timed_out_text_def timed_out_text_def download_failed_text_def no_mp3_text_def
      send_audio_error_text_def error_occurred_text_def
      split: option.split sum.split)

lemma download_tracks_not_please_wait:
  "Reply_text (please_wait_text w) \<notin> set (download_tracks envs k ts)"
  by (induction ts arbitrary: k) (simp_all add: download_not_please_wait)

lemma select_song_allowed_actions:
  "DOWNLOAD_COOLDOWN \<le> now - last_download_of st c \<Longrightarrow>
   Reply_text (please_wait_text w) \<notin> set (fst (select_song env c now parsed st))"
  by (simp add: select_song_def cooldown_check_allowed download_not_please_wait
      please_wait_text_differs split: option.split sum.split)

lemma download_page_allowed_actions:
  "DOWNLOAD_COOLDOWN \<le> now - last_download_of st c \<Longrightarrow>
   Reply_text (please_wait_text w) \<notin> set (fst (download_page envs c now st))"
  by (simp add: download_page_def cooldown_check_allowed download_tracks_not_please_wait
      please_wait_text_differs Let_def split: option.split sum.split)

lemma select_song_denied:
  "now - last_download_of st c < DOWNLOAD_COOLDOWN \<Longrightarrow>
   fst (select_song env c now parsed st) =
     [Reply_text (please_wait_text
        (int_total_seconds (DOWNLOAD_COOLDOWN - (now - last_download_of st c))))]"
  by (simp add: select_song_def cooldown_check_denied)

lemma download_page_denied:
  "now - last_download_of st c < DOWNLOAD_COOLDOWN \<Longrightarrow>
   fst (download_page envs c now st) =
     [Reply_text (please_wait_text
        (int_total_seconds (DOWNLOAD_COOLDOWN - (now - last_download_of st c))))]"
  by (simp add: download_page_def cooldown_check_denied)

lemma int_total_seconds_floor:
  "0 \<le> us \<Longrightarrow> int_total_seconds us = \<lfloor>real_of_int us / 1000000\<rfloor>"
proof -
  have "\<lfloor>real_of_int us / real_of_int 1000000\<rfloor> = us div 1000000"
    by (rule floor_divide_of_int_eq)
  then show "0 \<le> us \<Longrightarrow> int_total_seconds us = \<lfloor>real_of_int us / 1000000\<rfloor>"
    by (simp add: int_total_seconds_def)
qed

text \<open>
  Claim C1, amended. Let \<open>last\<close> be the time of the last reserved download of the chat
  (\<open>datetime.min\<close> if there is none). A select-one or download-page request at \<open>now\<close> with
  \<open>now - last\<close> below 30 seconds gets the single reply "Please wait n seconds before
  downloading again", where n is the remaining time in seconds rounded down (so n is at
  least zero, and zero during the last second), and the time of the last download stays
  \<open>last\<close>. With \<open>now - last\<close> of 30 seconds or more, no such reply is sent and the time of the
  last download is \<open>now\<close> when the handler returns.
\<close>

theorem cooldown_gate:
  "let last = last_download_of st c;
       remaining = DOWNLOAD_COOLDOWN - (now - last);
       sel = select_song env c now parsed st;
       dl = download_page envs c now st
   in (now - last < DOWNLOAD_COOLDOWN \<longrightarrow>
         fst sel = [Reply_text (please_wait_text \<lfloor>real_of_int remaining / 1000000\<rfloor>)] \<and>
         fst dl = [Reply_text (please_wait_text \<lfloor>real_of_int remaining / 1000000\<rfloor>)] \<and>
         0 \<le> \<lfloor>real_of_int remaining / 1000000\<rfloor> \<and>
         last_download_of (snd sel) c = last \<and> last_download_of (snd dl) c = last) \<and>
      (DOWNLOAD_COOLDOWN \<le> now - last \<longrightarrow>
         (\<forall>w. Reply_text (please_wait_text w) \<notin> set (fst sel)) \<and>
         (\<forall>w. Reply_text (please_wait_text w) \<notin> set (fst dl)) \<and>
         last_download_time (snd sel) c = Some now \<and>
         last_download_time (snd dl) c = Some now)"
proof -
  let ?last = "last_download_of st c"
  let ?rem = "DOWNLOAD_COOLDOWN - (now - ?last)"
  have denied: "now - ?last < DOWNLOAD_COOLDOWN \<Longrightarrow>
      int_total_seconds ?rem = \<lfloor>real_of_int ?rem / 1000000\<rfloor> \<and> 0 \<le> \<lfloor>real_of_int ?rem / 1000000\<rfloor>"
    using int_total_seconds_floor [of ?rem] by simp
  show ?thesis
    unfolding Let_def
    using denied
    by (auto simp: select_song_denied download_page_denied select_song_state
        download_page_state last_download_of_def select_song_allowed_actions
        download_page_allowed_actions)
qed

lemma last_download_of_initial: "last_download_of initial c = datetime_min"
  by (simp add: last_download_of_def initial_def)

lemma after_first_request_last: "last_download_of after_first_request 7 = 63929304000000000"
  by (simp add: after_first_request_def select_song_state last_download_of_initial
      datetime_min_def DOWNLOAD_COOLDOWN_def)
    (simp add: last_download_of_def)

theorem cooldown_gate_counterexample:
  "fst (select_song example_download 7 63929304029500000 (Inr 0) after_first_request) =
     [Reply_text (please_wait_text 0)] \<and>
   \<lceil>real_of_int (DOWNLOAD_COOLDOWN - (63929304029500000 - 63929304000000000)) / 1000000\<rceil> = 1 \<and>
   please_wait_text 0 \<noteq> please_wait_text 1"
proof -
  have "fst (select_song example_download 7 63929304029500000 (Inr 0) after_first_request) =
     [Reply_text (please_wait_text 0)]"
    by (simp add: select_song_denied after_first_request_last DOWNLOAD_COOLDOWN_def
        int_total_seconds_def)
  moreover have "\<lceil>real_of_int (DOWNLOAD_COOLDOWN - (63929304029500000 - 63929304000000000)) / 1000000\<rceil> = 1"
    by (simp add: DOWNLOAD_COOLDOWN_def ceiling_eq_iff)
  moreover have "please_wait_text 0 \<noteq> please_wait_text 1"
    by (simp add: please_wait_text_def str_of_int_def digits.simps)
  ultimately show ?thesis by blast
qed

theorem cooldown_gate_witness:
  "fst (select_song example_download 7 63929304010000000 (Inr 0) after_first_request) =
     [Reply_text (please_wait_text 20)] \<and>
   fst (download_page (\<lambda>k. example_download) 7 63929304010000000 after_first_request) =
     [Reply_text (please_wait_text 20)] \<and>
   last_download_of (snd (select_song example_download 7 63929304010000000 (Inr 0)
     after_first_request)) 7 = 63929304000000000 \<and>
   last_download_time (snd (select_song example_download 7 63929304030000000 (Inr 0)
     after_first_request)) 7 = Some 63929304030000000 \<and>
   last_download_time (snd (download_page (\<lambda>k. example_download) 7 63929304030000000
     after_first_request)) 7 = Some 63929304030000000"
proof -
  have denied: "63929304010000000 - last_download_of after_first_request 7 < DOWNLOAD_COOLDOWN"
    by (simp add: after_first_request_last DOWNLOAD_COOLDOWN_def)
  have allowed: "DOWNLOAD_COOLDOWN \<le> 63929304030000000 - last_download_of after_first_request 7"
    by (simp add: after_first_request_last DOWNLOAD_COOLDOWN_def)
  have rem: "\<lfloor>real_of_int (DOWNLOAD_COOLDOWN - (63929304010000000 - 63929304000000000)) / 1000000\<rfloor> = 20"
    by (simp add: DOWNLOAD_COOLDOWN_def)
  from cooldown_gate [where now = 63929304010000000 and st = after_first_request and c = 7
      and env = example_download and parsed = "Inr 0" and envs = "\<lambda>k. example_download"]
    denied
  have a: "fst (select_song example_download 7 63929304010000000 (Inr 0) after_first_request) =
       [Reply_text (please_wait_text 20)] \<and>
     fst (download_page (\<lambda>k. example_download) 7 63929304010000000 after_first_request) =
       [Reply_text (please_wait_text 20)] \<and>
     last_download_of (snd (select_song example_download 7 63929304010000000 (Inr 0)
       after_first_request)) 7 = 63929304000000000"
    unfolding Let_def after_first_request_last rem by simp
  from cooldown_gate [where now = 63929304030000000 and st = after_first_request and c = 7
      and env = example_download and parsed = "Inr 0" and envs = "\<lambda>k. example_download"]
    allowed
  have b: "last_download_time (snd (select_song example_download 7 63929304030000000 (Inr 0)
       after_first_request)) 7 = Some 63929304030000000 \<and>
     last_download_time (snd (download_page (\<lambda>k. example_download) 7 63929304030000000
       after_first_request)) 7 = Some 63929304030000000"
    unfolding Let_def by simp
  from a b show ?thesis by blast
qed


section \<open>A reservation is never given back\<close>

lemma select_song_expired:
  "DOWNLOAD_COOLDOWN \<le> now - last_download_of st c \<Longrightarrow> search_results st c = None \<Longrightarrow>
   fst (select_song env c now parsed st) = [Reply_text session_expired_text]"
  by (simp add: select_song_def cooldown_check_allowed)

lemma download_page_expired:
  "DOWNLOAD_COOLDOWN \<le> now - last_download_of st c \<Longrightarrow>
   search_results st c = None \<or> current_page st c = None \<Longrightarrow>
   fst (download_page envs c now st) = [Reply_text session_expired_text]"
  by (auto simp: download_page_def cooldown_check_allowed split: option.split)

lemma last_download_of_update:
  "last_download_of (st\<lparr>last_download_time := (last_download_time st)(c \<mapsto> t)\<rparr>) c = t"
  by (simp add: last_download_of_def)

text \<open>
  Claim C9. The cooldown check comes first and what it reserves is kept: when a select-one
  or download-page request passes the check at \<open>now\<close>, the time of the last download of the
  chat is \<open>now\<close> when the handler returns, whatever the handler replies and whatever the
  download does; this holds in particular when the reply is "Session expired" because
  the chat has no results. Any further request of the chat less than 30 seconds after
  \<open>now\<close> is then refused with the "Please wait" reply.
\<close>

theorem reservation_kept_after_failure:
  "DOWNLOAD_COOLDOWN \<le> now - last_download_of st c \<Longrightarrow>
   (let sel = select_song env c now parsed st; dl = download_page envs c now st
    in last_download_time (snd sel) c = Some now \<and>
       last_download_time (snd dl) c = Some now \<and>
       (search_results st c = None \<longrightarrow>
          fst sel = [Reply_text session_expired_text] \<and>
          fst dl = [Reply_text session_expired_text]) \<and>
       (\<forall>st' \<in> {snd sel, snd dl}. \<forall>now'. now' - now < DOWNLOAD_COOLDOWN \<longrightarrow>
          (\<forall>env' parsed'. fst (select_song env' c now' parsed' st') =
             [Reply_text (please_wait_text
                (int_total_seconds (DOWNLOAD_COOLDOWN - (now' - now))))]) \<and>
          (\<forall>envs'. fst (download_page envs' c now' st') =
             [Reply_text (please_wait_text
                (int_total_seconds (DOWNLOAD_COOLDOWN - (now' - now))))])))"
proof -
  assume allowed: "DOWNLOAD_COOLDOWN \<le> now - last_download_of st c"
  let ?st' = "st\<lparr>last_download_time := (last_download_time st)(c \<mapsto> now)\<rparr>"
  have sel: "snd (select_song env c now parsed st) = ?st'"
    using allowed by (simp add: select_song_state)
  have dl: "snd (download_page envs c now st) = ?st'"
    using allowed by (simp add: download_page_state)
  have last: "last_download_of ?st' c = now"
    by (rule last_download_of_update)
  have again: "now' - now < DOWNLOAD_COOLDOWN \<Longrightarrow>
      fst (select_song env' c now' parsed' ?st') =
        [Reply_text (please_wait_text (int_total_seconds (DOWNLOAD_COOLDOWN - (now' - now))))] \<and>
      fst (download_page envs' c now' ?st') =
        [Reply_text (please_wait_text (int_total_seconds (DOWNLOAD_COOLDOWN - (now' - now))))]"
    for now' env' parsed' envs'
    using select_song_denied [of now' ?st' c env' parsed']
      download_page_denied [of now' ?st' c envs']
    unfolding last by simp
  show ?thesis
    unfolding Let_def sel dl
    using allowed again
    by (simp add: select_song_expired download_page_expired)
qed

lemma strip_Imagine: "strip (ascii ''Imagine'') = ascii ''Imagine''"
  by (simp add: strip_def ascii_def is_space_def)

lemma after_search_state:
  "search_results after_search 7 = Some (replicate 12 example_track)"
  "current_page after_search 7 = Some 1"
  "queries after_search 7 = Some (ascii ''Imagine'')"
  "last_download_time after_search = Map.empty"
proof -
  have ne: "strip (ascii ''Imagine'') \<noteq> []"
    unfolding strip_Imagine by (simp add: ascii_def)
  have tr: "search_response found_search = Inr (replicate 12 example_track)"
    by (simp add: found_search_def)
  have nonempty: "replicate 12 example_track \<noteq> []" by simp
  note st = display_search_results_state [OF tr nonempty]
  show "search_results after_search 7 = Some (replicate 12 example_track)"
    "current_page after_search 7 = Some 1"
    "queries after_search 7 = Some (ascii ''Imagine'')"
    "last_download_time after_search = Map.empty"
    using ne
    by (simp_all add: after_search_def search_and_display_def Let_def split_beta st
        strip_Imagine initial_def)
qed

lemma after_search_last: "last_download_of after_search 7 = datetime_min"
  by (simp add: last_download_of_def after_search_state)

lemma head_of_twelve: "py_index (replicate 12 example_track) 0 = Inr example_track"
  by (simp add: py_index_def)

lemma failing_select:
  "fst (select_song failing_download 7 63929304000000000 (Inr 0) after_search) =
     [Edit_message_text (selected_text (ascii ''Imagine'') (ascii ''John Lennon'')),
      Create_subprocess (spotdl_command
        (ascii ''https://open.spotify.com/track/7pKfPomDEeI4TPT6EOYjn9'') (ascii ''/tmp/tmpk3v9'')),
      Communicate,
      Reply_text (download_failed_text (ascii ''LookupError: no results''))]"
proof -
  have "fst (select_song failing_download 7 63929304000000000 (Inr 0) after_search) =
      Edit_message_text (selected_text (name example_track) (artists_text example_track))
        # download_and_send_audio failing_download (external_urls_spotify example_track)
            (name example_track) (artists_text example_track) None True"
    by (simp add: select_song_def cooldown_check_allowed after_search_last datetime_min_def
        DOWNLOAD_COOLDOWN_def after_search_state head_of_twelve)
  then show ?thesis
    by (simp add: example_track_def artists_text_def download_and_send_audio_def
        failing_download_def example_download_def wait_for_def SPOTDL_TIMEOUT_def
        notify_def Let_def)
qed

theorem reservation_kept_after_failure_witness:
  "fst (select_song example_download 7 63929304000000000 (Inr 0) initial) =
     [Reply_text session_expired_text] \<and>
   last_download_time (snd (select_song example_download 7 63929304000000000 (Inr 0) initial)) 7 =
     Some 63929304000000000 \<and>
   fst (download_page (\<lambda>k. example_download) 7 63929304010000000
     (snd (select_song example_download 7 63929304000000000 (Inr 0) initial))) =
     [Reply_text (please_wait_text 20)] \<and>
   Reply_text (download_failed_text (ascii ''LookupError: no results''))
     \<in> set (fst (select_song failing_download 7 63929304000000000 (Inr 0) after_search)) \<and>
   last_download_time (snd (select_song failing_download 7 63929304000000000 (Inr 0) after_search)) 7 =
     Some 63929304000000000 \<and>
   fst (select_song example_download 7 63929304029999999 (Inr 0)
     (snd (select_song failing_download 7 63929304000000000 (Inr 0) after_search))) =
     [Reply_text (please_wait_text 0)]"
proof -
  have a1: "DOWNLOAD_COOLDOWN \<le> 63929304000000000 - last_download_of initial 7"
    by (simp add: last_download_of_initial datetime_min_def DOWNLOAD_COOLDOWN_def)
  have a2: "DOWNLOAD_COOLDOWN \<le> 63929304000000000 - last_download_of after_search 7"
    by (simp add: after_search_last datetime_min_def DOWNLOAD_COOLDOWN_def)
  have none: "search_results initial 7 = None" by (simp add: initial_def)
  have w20: "int_total_seconds (DOWNLOAD_COOLDOWN - 10000000) = 20"
    by (simp add: int_total_seconds_def DOWNLOAD_COOLDOWN_def)
  have w0: "int_total_seconds (DOWNLOAD_COOLDOWN - 29999999) = 0"
    by (simp add: int_total_seconds_def DOWNLOAD_COOLDOWN_def)
  have lt: "(63929304010000000::int) - 63929304000000000 < DOWNLOAD_COOLDOWN"
    "(63929304029999999::int) - 63929304000000000 < DOWNLOAD_COOLDOWN"
    by (simp_all add: DOWNLOAD_COOLDOWN_def)
  note r1 = reservation_kept_after_failure [OF a1, where env = example_download
      and parsed = "Inr 0" and envs = "\<lambda>k. example_download", unfolded Let_def]
  from r1 none have e1: "fst (select_song example_download 7 63929304000000000 (Inr 0) initial) =
      [Reply_text session_expired_text]"
    by simp
  from r1 have e2: "last_download_time
      (snd (select_song example_download 7 63929304000000000 (Inr 0) initial)) 7 = Some 63929304000000000"
    by simp
  from r1 have "\<forall>now'. now' - 63929304000000000 < DOWNLOAD_COOLDOWN \<longrightarrow>
      (\<forall>envs'. fst (download_page envs' 7 now'
         (snd (select_song example_download 7 63929304000000000 (Inr 0) initial))) =
       [Reply_text (please_wait_text
          (int_total_seconds (DOWNLOAD_COOLDOWN - (now' - 63929304000000000))))])"
    by simp
  from this [rule_format, OF lt(1)]
  have e3: "fst (download_page (\<lambda>k. example_download) 7 63929304010000000
       (snd (select_song example_download 7 63929304000000000 (Inr 0) initial))) =
       [Reply_text (please_wait_text 20)]"
    by (simp add: w20)
  note r2 = reservation_kept_after_failure [OF a2, where env = failing_download
      and parsed = "Inr 0" and envs = "\<lambda>k. example_download", unfolded Let_def]
  from r2 have e4: "last_download_time
      (snd (select_song failing_download 7 63929304000000000 (Inr 0) after_search)) 7 =
      Some 63929304000000000"
    by simp
  from r2 have "\<forall>now'. now' - 63929304000000000 < DOWNLOAD_COOLDOWN \<longrightarrow>
      (\<forall>env' parsed'. fst (select_song env' 7 now' parsed'
         (snd (select_song failing_download 7 63929304000000000 (Inr 0) after_search))) =
       [Reply_text (please_wait_text
          (int_total_seconds (DOWNLOAD_COOLDOWN - (now' - 63929304000000000))))])"
    by simp
  from this [rule_format, OF lt(2)]
  have e5: "fst (select_song example_download 7 63929304029999999 (Inr 0)
       (snd (select_song failing_download 7 63929304000000000 (Inr 0) after_search))) =
       [Reply_text (please_wait_text 0)]"
    by (simp add: w0)
  have failed: "Reply_text (download_failed_text (ascii ''LookupError: no results''))
     \<in> set (fst (select_song failing_download 7 63929304000000000 (Inr 0) after_search))"
    unfolding failing_select by simp
  from e1 e2 e3 e4 e5 failed show ?thesis by blast
qed


section \<open>What a search and a page turn do to the session\<close>

lemma display_search_results_unchanged:
  "\<not> (\<exists>tracks. search_response env = Inr tracks \<and> tracks \<noteq> []) \<Longrightarrow>
   snd (display_search_results env c q p st) = st"
  by (cases "search_response env")
    (auto simp: display_search_results_failed display_search_results_empty)

lemma session_ok_display:
  "session_ok st \<Longrightarrow> session_ok (snd (display_search_results env c q p st))"
proof (cases "\<exists>tracks. search_response env = Inr tracks \<and> tracks \<noteq> []")
  case True
  assume ok: "session_ok st"
  from True obtain tracks where t: "search_response env = Inr tracks" "tracks \<noteq> []" by blast
  show ?thesis
    unfolding display_search_results_state [OF t]
    using ok t(2) by (simp add: session_ok_def)
next
  case False
  assume "session_ok st"
  with False show ?thesis by (simp add: display_search_results_unchanged)
qed

lemma session_ok_search:
  "session_ok st \<Longrightarrow> session_ok (snd (search_and_display env c msg st))"
proof -
  assume ok: "session_ok st"
  have "session_ok (st\<lparr>recent_queries := r\<rparr>)" for r
    using ok by (simp add: session_ok_def)
  then show ?thesis
    by (simp add: search_and_display_def Let_def split_beta session_ok_display ok)
qed

lemma session_ok_page:
  assumes ok: "session_ok st" and cp: "current_page st c \<noteq> None"
  shows "session_ok (st\<lparr>current_page := (current_page st)(c \<mapsto> p)\<rparr>)"
  unfolding session_ok_def
proof
  fix c'
  from ok have "(search_results st c' = None \<and> current_page st c' = None \<and> queries st c' = None) \<or>
     (\<exists>r p q. search_results st c' = Some r \<and> r \<noteq> [] \<and> current_page st c' = Some p \<and>
        queries st c' = Some q)"
    by (simp add: session_ok_def)
  with cp show "(search_results (st\<lparr>current_page := (current_page st)(c \<mapsto> p)\<rparr>) c' = None \<and>
      current_page (st\<lparr>current_page := (current_page st)(c \<mapsto> p)\<rparr>) c' = None \<and>
      queries (st\<lparr>current_page := (current_page st)(c \<mapsto> p)\<rparr>) c' = None) \<or>
     (\<exists>r pa q. search_results (st\<lparr>current_page := (current_page st)(c \<mapsto> p)\<rparr>) c' = Some r \<and>
        r \<noteq> [] \<and> current_page (st\<lparr>current_page := (current_page st)(c \<mapsto> p)\<rparr>) c' = Some pa \<and>
        queries (st\<lparr>current_page := (current_page st)(c \<mapsto> p)\<rparr>) c' = Some q)"
    by (cases "c' = c") auto
qed


lemma session_ok_cooldown:
  "session_ok st \<Longrightarrow> session_ok (st\<lparr>last_download_time := l\<rparr>)"
  by (simp add: session_ok_def)

lemma session_ok_pagination:
  "session_ok st \<Longrightarrow> session_ok (snd (handle_pagination env c data st))"
  by (simp add: handle_pagination_def Let_def session_ok_display session_ok_page
      split: option.split)

lemma session_ok_handle: "session_ok st \<Longrightarrow> session_ok (snd (handle c e st))"
  by (cases e)
    (simp_all add: session_ok_search session_ok_pagination select_song_state
      download_page_state session_ok_cooldown)

lemma session_ok_run: "session_ok st \<Longrightarrow> session_ok (run evs st)"
proof (induction evs arbitrary: st)
  case Nil
  then show ?case by simp
next
  case (Cons ev evs)
  obtain c e where ev: "ev = (c, e)" by (cases ev)
  from Cons.prems have "session_ok (snd (handle c e st))" by (rule session_ok_handle)
  then show ?case unfolding ev run.simps by (rule Cons.IH)
qed

lemma session_ok_initial: "session_ok initial"
  by (simp add: session_ok_def initial_def)

lemma session_ok_reached: "session_ok (run evs initial)"
  using session_ok_initial by (rule session_ok_run)


lemma reached_unsearched:
  "search_results (run evs initial) c = None \<Longrightarrow>
   current_page (run evs initial) c = None \<and> queries (run evs initial) c = None"
  using session_ok_reached [of evs] unfolding session_ok_def by (metis option.distinct(1))

lemma search_state_unchanged:
  "\<not> (\<exists>tracks. search_response env = Inr tracks \<and> tracks \<noteq> []) \<Longrightarrow>
   search_results (snd (search_and_display env c msg st)) = search_results st \<and>
   current_page (snd (search_and_display env c msg st)) = current_page st \<and>
   queries (snd (search_and_display env c msg st)) = queries st"
  by (simp add: search_and_display_def Let_def split_beta display_search_results_unchanged)

lemma search_state_replaced:
  "search_response env = Inr tracks \<Longrightarrow> tracks \<noteq> [] \<Longrightarrow> strip msg \<noteq> [] \<Longrightarrow>
   search_results (snd (search_and_display env c msg st)) c = Some tracks \<and>
   current_page (snd (search_and_display env c msg st)) c = Some 1 \<and>
   queries (snd (search_and_display env c msg st)) c = Some (strip msg)"
  by (simp add: search_and_display_def Let_def split_beta display_search_results_state)

lemma search_empty_reply:
  "search_response env = Inr [] \<Longrightarrow> strip msg \<noteq> [] \<Longrightarrow>
   fst (search_and_display env c msg st) =
     [Catalog_search (strip msg), Send_message no_results_text]"
  by (simp add: search_and_display_def Let_def split_beta display_search_results_empty)

text \<open>
  Claim C3. When the catalog answers a search with no track, the chat gets the "No results
  found" message and the results, the current page and the active query of the session
  are what they were. They change only when the catalog returns at least one track; then
  the results are the returned tracks, the page is 1 and the query is the searched text.
\<close>

theorem empty_search_keeps_session:
  "let acts = fst (search_and_display env c msg st);
       st' = snd (search_and_display env c msg st)
   in (search_response env = Inr [] \<longrightarrow>
         search_results st' = search_results st \<and> current_page st' = current_page st \<and>
         queries st' = queries st \<and>
         (strip msg \<noteq> [] \<longrightarrow> acts = [Catalog_search (strip msg), Send_message no_results_text])) \<and>
      (search_results st' \<noteq> search_results st \<or> current_page st' \<noteq> current_page st \<or>
         queries st' \<noteq> queries st \<longrightarrow>
         (\<exists>tracks. search_response env = Inr tracks \<and> tracks \<noteq> [])) \<and>
      (\<forall>tracks. search_response env = Inr tracks \<and> tracks \<noteq> [] \<and> strip msg \<noteq> [] \<longrightarrow>
         search_results st' c = Some tracks \<and> current_page st' c = Some 1 \<and>
         queries st' c = Some (strip msg))"
proof -
  have a: "search_response env = Inr [] \<Longrightarrow>
      \<not> (\<exists>tracks. search_response env = Inr tracks \<and> tracks \<noteq> [])"
    by simp
  show ?thesis
    unfolding Let_def
    using a search_state_unchanged [of env c msg st] search_state_replaced [of env _ msg c st]
      search_empty_reply [of env msg c st]
    by blast
qed

lemma display_search_results_actions:
  "search_response env = Inr tracks \<Longrightarrow> tracks \<noteq> [] \<Longrightarrow>
   fst (display_search_results env c q p st) =
     (let total_pages = total_pages_of (int (length tracks));
          page1 = max 1 (min p total_pages);
          start = (page1 - 1) * ITEMS_PER_PAGE;
          poster_url = (case album_images (hd tracks) of [] \<Rightarrow> [] | u # _ \<Rightarrow> u)
      in Catalog_search q # fst (retire_pinned c st)
           @ (if poster_url \<noteq> []
              then Send_photo poster_url (results_caption q page1 total_pages)
                     # (case photo_sent env of
                          Some m \<Rightarrow> [Schedule_message_delete m 60] | None \<Rightarrow> [])
              else [])
           @ Send_keyboard choose_text
               (map track_button
                  (enumerate_from start (py_slice tracks start (start + ITEMS_PER_PAGE)))
                @ (if nav_buttons page1 total_pages \<noteq> []
                   then [nav_buttons page1 total_pages] else [])
                @ [[download_page_button]])
           # (case message_sent env of
                Some m \<Rightarrow> [Schedule_message_delete m 60] | None \<Rightarrow> []))"
  by (simp add: display_search_results_def retire_pinned_def Let_def split_beta
      split: option.split)

lemma display_search_results_first:
  "\<exists>rest. fst (display_search_results env c q p st) = Catalog_search q # rest"
proof (cases "\<exists>tracks. search_response env = Inr tracks \<and> tracks \<noteq> []")
  case True
  then obtain tracks where t: "search_response env = Inr tracks" "tracks \<noteq> []" by blast
  show ?thesis unfolding display_search_results_actions [OF t] Let_def by blast
next
  case False
  then show ?thesis
    by (cases "search_response env")
      (auto simp: display_search_results_failed display_search_results_empty)
qed

lemma display_search_results_page:
  "current_page st c = Some p \<Longrightarrow>
   current_page (snd (display_search_results env c q p st)) c = Some p"
proof (cases "\<exists>tracks. search_response env = Inr tracks \<and> tracks \<noteq> []")
  case True
  then obtain tracks where t: "search_response env = Inr tracks" "tracks \<noteq> []" by blast
  show ?thesis unfolding display_search_results_state [OF t] by simp
next
  case False
  assume "current_page st c = Some p"
  with False show ?thesis by (simp add: display_search_results_unchanged)
qed

lemma handle_pagination_page:
  "current_page st c = Some p \<Longrightarrow> queries st c = Some q \<Longrightarrow>
   current_page (snd (handle_pagination env c data st)) c =
     Some (max 1 (min (if data = Next_page then p + 1
                       else if data = Prev_page then p - 1 else p)
       (total_pages_of
          (int (length (case search_results st c of None \<Rightarrow> [] | Some r \<Rightarrow> r))))))"
  by (simp add: handle_pagination_def Let_def display_search_results_page)

lemma handle_pagination_first:
  "current_page st c = Some p \<Longrightarrow> queries st c = Some q \<Longrightarrow>
   \<exists>rest. fst (handle_pagination env c data st) = Catalog_search q # rest"
  by (simp add: handle_pagination_def Let_def display_search_results_first)

lemma handle_pagination_results:
  "current_page st c = Some p \<Longrightarrow> queries st c = Some q \<Longrightarrow>
   search_response env = Inr tracks \<Longrightarrow> tracks \<noteq> [] \<Longrightarrow>
   search_results (snd (handle_pagination env c data st)) c = Some tracks \<and>
   queries (snd (handle_pagination env c data st)) c = Some q \<and>
   last_download_time (snd (handle_pagination env c data st)) = last_download_time st"
  by (simp add: handle_pagination_def Let_def display_search_results_state)

lemma handle_pagination_kept:
  "\<not> (\<exists>tracks. search_response env = Inr tracks \<and> tracks \<noteq> []) \<Longrightarrow>
   search_results (snd (handle_pagination env c data st)) = search_results st"
  by (simp add: handle_pagination_def Let_def display_search_results_unchanged
      split: option.split)

lemma handle_pagination_expired:
  "current_page st c = None \<or> queries st c = None \<Longrightarrow>
   handle_pagination env c data st = ([Reply_text session_expired_text], st)"
  by (auto simp: handle_pagination_def split: option.split)

lemma handle_pagination_keyboard:
  "current_page st c = Some p \<Longrightarrow> queries st c = Some q \<Longrightarrow>
   search_response env = Inr tracks \<Longrightarrow> tracks \<noteq> [] \<Longrightarrow>
   current_page (snd (handle_pagination env c data st)) c = Some p2 \<Longrightarrow>
   (let total_pages = total_pages_of (int (length tracks));
        page1 = max 1 (min p2 total_pages);
        start = (page1 - 1) * ITEMS_PER_PAGE
    in Send_keyboard choose_text
         (map track_button
            (enumerate_from start (py_slice tracks start (start + ITEMS_PER_PAGE)))
          @ (if nav_buttons page1 total_pages \<noteq> []
             then [nav_buttons page1 total_pages] else [])
          @ [[download_page_button]])
       \<in> set (fst (handle_pagination env c data st)))"
proof -
  assume p: "current_page st c = Some p" and q: "queries st c = Some q"
    and t: "search_response env = Inr tracks" "tracks \<noteq> []"
    and p2: "current_page (snd (handle_pagination env c data st)) c = Some p2"
  from p2 have eq: "max 1 (min (if data = Next_page then p + 1
                       else if data = Prev_page then p - 1 else p)
       (total_pages_of
          (int (length (case search_results st c of None \<Rightarrow> [] | Some r \<Rightarrow> r))))) = p2"
    unfolding handle_pagination_page [OF p q] by simp
  have "fst (handle_pagination env c data st) =
      fst (display_search_results env c q p2
        (st\<lparr>current_page := (current_page st)(c \<mapsto> p2)\<rparr>))"
    using p q eq by (simp add: handle_pagination_def Let_def)
  then show ?thesis
    unfolding display_search_results_actions [OF t] Let_def by simp
qed

text \<open>
  Claim C10, amended. A navigation event for a session that has a current page and an
  active query calls the catalog again with that query. When the catalog returns at least
  one track, the results of the session are replaced by the returned tracks and the page
  that is shown (its track buttons and navigation buttons) is cut from the returned
  tracks, not from the results the pressed button was made from. When the catalog returns
  no track or the search fails, the results stay as they were and no page is shown.
\<close>

theorem navigation_searches_again:
  "current_page st c = Some p \<Longrightarrow> queries st c = Some q \<Longrightarrow>
   (let acts = fst (handle_pagination env c data st);
        st' = snd (handle_pagination env c data st)
    in hd acts = Catalog_search q \<and>
       (\<forall>tracks. search_response env = Inr tracks \<and> tracks \<noteq> [] \<longrightarrow>
          search_results st' c = Some tracks \<and>
          (\<exists>p2. current_page st' c = Some p2 \<and>
             (let total_pages = total_pages_of (int (length tracks));
                  page1 = max 1 (min p2 total_pages);
                  start = (page1 - 1) * ITEMS_PER_PAGE
              in Send_keyboard choose_text
                   (map track_button
                      (enumerate_from start (py_slice tracks start (start + ITEMS_PER_PAGE)))
                    @ (if nav_buttons page1 total_pages \<noteq> []
                       then [nav_buttons page1 total_pages] else [])
                    @ [[download_page_button]])
                 \<in> set acts))) \<and>
       (\<not> (\<exists>tracks. search_response env = Inr tracks \<and> tracks \<noteq> []) \<longrightarrow>
          search_results st' = search_results st \<and>
          Catalog_search q \<in> set acts \<and> (\<forall>t k. Send_keyboard t k \<notin> set acts)))"
proof -
  assume p: "current_page st c = Some p" and q: "queries st c = Some q"
  let ?acts = "fst (handle_pagination env c data st)"
  let ?st' = "snd (handle_pagination env c data st)"
  let ?p2 = "max 1 (min (if data = Next_page then p + 1
                       else if data = Prev_page then p - 1 else p)
       (total_pages_of
          (int (length (case search_results st c of None \<Rightarrow> [] | Some r \<Rightarrow> r)))))"
  from handle_pagination_first [OF p q] obtain rest where
    first: "?acts = Catalog_search q # rest"
    by blast
  have A: "hd ?acts = Catalog_search q"
    unfolding first by simp
  have cp: "current_page ?st' c = Some ?p2"
    by (rule handle_pagination_page [OF p q])
  have B: "\<forall>tracks. search_response env = Inr tracks \<and> tracks \<noteq> [] \<longrightarrow>
          search_results ?st' c = Some tracks \<and>
          (\<exists>p2. current_page ?st' c = Some p2 \<and>
             (let total_pages = total_pages_of (int (length tracks));
                  page1 = max 1 (min p2 total_pages);
                  start = (page1 - 1) * ITEMS_PER_PAGE
              in Send_keyboard choose_text
                   (map track_button
                      (enumerate_from start (py_slice tracks start (start + ITEMS_PER_PAGE)))
                    @ (if nav_buttons page1 total_pages \<noteq> []
                       then [nav_buttons page1 total_pages] else [])
                    @ [[download_page_button]])
                 \<in> set ?acts))"
  proof (intro allI impI)
    fix tracks
    assume "search_response env = Inr tracks \<and> tracks \<noteq> []"
    then have t: "search_response env = Inr tracks" "tracks \<noteq> []" by simp_all
    have r: "search_results ?st' c = Some tracks"
      using handle_pagination_results [OF p q t, of data] by simp
    note k = handle_pagination_keyboard [OF p q t cp]
    show "search_results ?st' c = Some tracks \<and>
          (\<exists>p2. current_page ?st' c = Some p2 \<and>
             (let total_pages = total_pages_of (int (length tracks));
                  page1 = max 1 (min p2 total_pages);
                  start = (page1 - 1) * ITEMS_PER_PAGE
              in Send_keyboard choose_text
                   (map track_button
                      (enumerate_from start (py_slice tracks start (start + ITEMS_PER_PAGE)))
                    @ (if nav_buttons page1 total_pages \<noteq> []
                       then [nav_buttons page1 total_pages] else [])
                    @ [[download_page_button]])
                 \<in> set ?acts))"
      using r cp k by (intro conjI exI [of _ ?p2])
  qed
  have C: "\<not> (\<exists>tracks. search_response env = Inr tracks \<and> tracks \<noteq> []) \<longrightarrow>
          search_results ?st' = search_results st \<and>
          Catalog_search q \<in> set ?acts \<and> (\<forall>t k. Send_keyboard t k \<notin> set ?acts)"
  proof
    assume no: "\<not> (\<exists>tracks. search_response env = Inr tracks \<and> tracks \<noteq> [])"
    have "?acts = [Catalog_search q, Send_message no_results_text] \<or>
      (\<exists>e. ?acts = [Catalog_search q, Send_message (display_error_text e)])"
    proof (cases "search_response env")
      case (Inl e)
      then have "?acts = [Catalog_search q, Send_message (display_error_text e)]"
        using p q by (simp add: handle_pagination_def Let_def display_search_results_failed)
      then show ?thesis by blast
    next
      case (Inr tracks)
      with no have "search_response env = Inr []" by simp
      then show ?thesis
        using p q by (simp add: handle_pagination_def Let_def display_search_results_empty)
    qed
    then have "Catalog_search q \<in> set ?acts \<and> (\<forall>t k. Send_keyboard t k \<notin> set ?acts)"
      by (elim disjE exE) simp_all
    with handle_pagination_kept [OF no, of c data st]
    show "search_results ?st' = search_results st \<and>
          Catalog_search q \<in> set ?acts \<and> (\<forall>t k. Send_keyboard t k \<notin> set ?acts)"
      by simp
  qed
  show ?thesis
    unfolding Let_def using A B [unfolded Let_def] C by (intro conjI)
qed

lemma total_pages_of_twelve: "total_pages_of 12 = 3"
  by (simp add: total_pages_of_def ITEMS_PER_PAGE_def ceiling_eq_iff)

lemma total_pages_of_three: "total_pages_of 3 = 1"
  by (simp add: total_pages_of_def ITEMS_PER_PAGE_def ceiling_eq_iff)

lemma found_search_response:
  "search_response found_search = Inr (replicate 12 example_track)"
  "replicate 12 example_track \<noteq> []"
  by (simp_all add: found_search_def)



theorem empty_search_keeps_session_witness:
  "search_results (snd (search_and_display quiet_search 7 (ascii ''u'') after_search)) 7 =
     Some (replicate 12 example_track) \<and>
   current_page (snd (search_and_display quiet_search 7 (ascii ''u'') after_search)) 7 =
     Some 1 \<and>
   queries (snd (search_and_display quiet_search 7 (ascii ''u'') after_search)) 7 =
     Some (ascii ''Imagine'') \<and>
   fst (search_and_display quiet_search 7 (ascii ''u'') after_search) =
     [Catalog_search (ascii ''u''), Send_message no_results_text] \<and>
   search_results (snd (search_and_display found_search 7 (ascii ''u'') initial)) 7 =
     Some (replicate 12 example_track)"
proof -
  have s: "strip (ascii ''u'') = ascii ''u''" "ascii ''u'' \<noteq> []"
    by (simp_all add: ascii_def strip_letter)
  have quiet: "search_response quiet_search = Inr []"
    by (simp add: quiet_search_def)
  from empty_search_keeps_session [of quiet_search 7 "ascii ''u''" after_search] quiet s
  have a: "search_results (snd (search_and_display quiet_search 7 (ascii ''u'') after_search)) =
      search_results after_search \<and>
    current_page (snd (search_and_display quiet_search 7 (ascii ''u'') after_search)) =
      current_page after_search \<and>
    queries (snd (search_and_display quiet_search 7 (ascii ''u'') after_search)) =
      queries after_search \<and>
    fst (search_and_display quiet_search 7 (ascii ''u'') after_search) =
      [Catalog_search (ascii ''u''), Send_message no_results_text]"
    unfolding Let_def by simp
  from empty_search_keeps_session [of found_search 7 "ascii ''u''" initial]
    found_search_response s
  have b: "search_results (snd (search_and_display found_search 7 (ascii ''u'') initial)) 7 =
      Some (replicate 12 example_track)"
    unfolding Let_def by simp
  from a b show ?thesis by (simp add: after_search_state)
qed

lemma other_search_response:
  "search_response other_search = Inr [other_track, other_track, other_track]"
  "[other_track, other_track, other_track] \<noteq> []"
  by (simp_all add: other_search_def)

theorem navigation_searches_again_counterexample:
  "search_response quiet_search = Inr [] \<and>
   search_results (snd (handle_pagination quiet_search 7 Next_page after_search)) 7 =
     Some (replicate 12 example_track) \<and>
   fst (handle_pagination found_search 7 Next_page initial) =
     [Reply_text session_expired_text]"
proof -
  have no: "\<not> (\<exists>tracks. search_response quiet_search = Inr tracks \<and> tracks \<noteq> [])"
    by (simp add: quiet_search_def)
  have "current_page initial 7 = None \<or> queries initial 7 = None"
    by (simp add: initial_def)
  from handle_pagination_expired [OF this] handle_pagination_kept [OF no, of 7 Next_page after_search]
  show ?thesis
    by (simp add: quiet_search_def after_search_state)
qed

theorem navigation_searches_again_witness:
  "search_results after_search 7 = Some (replicate 12 example_track) \<and>
   hd (fst (handle_pagination other_search 7 Next_page after_search)) =
     Catalog_search (ascii ''Imagine'') \<and>
   search_results (snd (handle_pagination other_search 7 Next_page after_search)) 7 =
     Some [other_track, other_track, other_track] \<and>
   current_page (snd (handle_pagination other_search 7 Next_page after_search)) 7 = Some 2 \<and>
   Send_keyboard choose_text
     (map track_button [(0, other_track), (1, other_track), (2, other_track)]
      @ [[download_page_button]])
     \<in> set (fst (handle_pagination other_search 7 Next_page after_search)) \<and>
   search_results (snd (handle_pagination quiet_search 7 Next_page after_search)) =
     search_results after_search"
proof -
  have page: "current_page (snd (handle_pagination other_search 7 Next_page after_search)) 7 =
      Some 2"
    using handle_pagination_page [OF after_search_state(2,3), of other_search Next_page]
    by (simp add: after_search_state total_pages_of_twelve)
  have window: "py_slice [other_track, other_track, other_track] 0 5 =
      [other_track, other_track, other_track]"
    by (simp add: py_slice_def slice_bound_def)
  have nav: "nav_buttons 1 1 = []"
    by (simp add: nav_buttons_def)
  note n = navigation_searches_again [OF after_search_state(2,3), of other_search Next_page,
      unfolded Let_def]
  from n have h: "hd (fst (handle_pagination other_search 7 Next_page after_search)) =
      Catalog_search (ascii ''Imagine'')"
    by simp
  let ?tr = "[other_track, other_track, other_track]"
  let ?total = "total_pages_of (int (length ?tr))"
  let ?K = "\<lambda>p2. Send_keyboard choose_text
      (map track_button
         (enumerate_from ((max 1 (min p2 ?total) - 1) * ITEMS_PER_PAGE)
            (py_slice ?tr ((max 1 (min p2 ?total) - 1) * ITEMS_PER_PAGE)
               ((max 1 (min p2 ?total) - 1) * ITEMS_PER_PAGE + ITEMS_PER_PAGE)))
       @ (if nav_buttons (max 1 (min p2 ?total)) ?total \<noteq> []
          then [nav_buttons (max 1 (min p2 ?total)) ?total] else [])
       @ [[download_page_button]])"
  from n other_search_response
  have fresh: "search_results (snd (handle_pagination other_search 7 Next_page after_search)) 7 =
      Some ?tr \<and>
    (\<exists>p2. current_page (snd (handle_pagination other_search 7 Next_page after_search)) 7 =
        Some p2 \<and>
      ?K p2 \<in> set (fst (handle_pagination other_search 7 Next_page after_search)))"
    by blast
  then have "?K 2 \<in> set (fst (handle_pagination other_search 7 Next_page after_search))"
    unfolding page by simp
  then have keyboard: "Send_keyboard choose_text
      (map track_button [(0, other_track), (1, other_track), (2, other_track)]
       @ [[download_page_button]])
     \<in> set (fst (handle_pagination other_search 7 Next_page after_search))"
    by (simp add: total_pages_of_three ITEMS_PER_PAGE_def window nav)
  have quiet: "\<not> (\<exists>tracks. search_response quiet_search = Inr tracks \<and> tracks \<noteq> [])"
    by (simp add: quiet_search_def)
  from navigation_searches_again [OF after_search_state(2,3), of quiet_search Next_page,
      unfolded Let_def] quiet
  have kept: "search_results (snd (handle_pagination quiet_search 7 Next_page after_search)) =
      search_results after_search"
    by simp
  from h fresh keyboard page kept show ?thesis
    by (simp add: after_search_state)
qed


section \<open>Requests that refer to no results\<close>

lemma py_index_out_of_range:
  "int (length xs) \<le> i \<or> i < - int (length xs) \<Longrightarrow> py_index xs i = Inl index_error_text"
  by (auto simp: py_index_def)

lemma select_song_out_of_range:
  "DOWNLOAD_COOLDOWN \<le> now - last_download_of st c \<Longrightarrow>
   search_results st c = Some results \<Longrightarrow>
   int (length results) \<le> i \<or> i < - int (length results) \<Longrightarrow>
   fst (select_song env c now (Inr i) st) = [Reply_text (select_error_text index_error_text)]"
  by (simp add: select_song_def cooldown_check_allowed py_index_out_of_range)

text \<open>
  Claim C4, amended. Take a session reached by any sequence of events. If it has no
  results (no search has succeeded), a navigation event gets the single reply "Session
  expired. Please search again." and changes nothing. For a select-one or download-page
  event the cooldown check comes first: a request that passes it gets the same "Session
  expired" reply when the session has no results, and a select-one whose index \<open>i\<close> is at
  least the number of results, or below its negation, gets the single error reply "list
  index out of range" and starts no download; a request inside the cooldown gets the
  "Please wait" reply instead. Every list access of the handlers is guarded, so each of
  them returns with its reply.
\<close>

theorem stale_requests_answered:
  "let st = run evs initial; last = last_download_of st c;
       wait_time = int_total_seconds (DOWNLOAD_COOLDOWN - (now - last))
   in (search_results st c = None \<longrightarrow>
         handle_pagination senv c data st = ([Reply_text session_expired_text], st) \<and>
         (DOWNLOAD_COOLDOWN \<le> now - last \<longrightarrow>
            fst (select_song env c now parsed st) = [Reply_text session_expired_text] \<and>
            fst (download_page envs c now st) = [Reply_text session_expired_text])) \<and>
      (\<forall>results i. search_results st c = Some results \<and> DOWNLOAD_COOLDOWN \<le> now - last \<and>
           (int (length results) \<le> i \<or> i < - int (length results)) \<longrightarrow>
         fst (select_song env c now (Inr i) st) =
           [Reply_text (select_error_text index_error_text)]) \<and>
      (now - last < DOWNLOAD_COOLDOWN \<longrightarrow>
         fst (select_song env c now parsed st) = [Reply_text (please_wait_text wait_time)] \<and>
         fst (download_page envs c now st) = [Reply_text (please_wait_text wait_time)])"
proof -
  let ?st = "run evs initial"
  have A: "search_results ?st c = None \<longrightarrow>
         handle_pagination senv c data ?st = ([Reply_text session_expired_text], ?st) \<and>
         (DOWNLOAD_COOLDOWN \<le> now - last_download_of ?st c \<longrightarrow>
            fst (select_song env c now parsed ?st) = [Reply_text session_expired_text] \<and>
            fst (download_page envs c now ?st) = [Reply_text session_expired_text])"
  proof
    assume none: "search_results ?st c = None"
    from reached_unsearched [OF none] have "current_page ?st c = None \<or> queries ?st c = None"
      by simp
    from handle_pagination_expired [OF this] none
    show "handle_pagination senv c data ?st = ([Reply_text session_expired_text], ?st) \<and>
         (DOWNLOAD_COOLDOWN \<le> now - last_download_of ?st c \<longrightarrow>
            fst (select_song env c now parsed ?st) = [Reply_text session_expired_text] \<and>
            fst (download_page envs c now ?st) = [Reply_text session_expired_text])"
      by (simp add: select_song_expired download_page_expired)
  qed
  have B: "\<forall>results i. search_results ?st c = Some results \<and>
           DOWNLOAD_COOLDOWN \<le> now - last_download_of ?st c \<and>
           (int (length results) \<le> i \<or> i < - int (length results)) \<longrightarrow>
         fst (select_song env c now (Inr i) ?st) =
           [Reply_text (select_error_text index_error_text)]"
    using select_song_out_of_range [of now ?st c _ _ env] by blast
  have C: "now - last_download_of ?st c < DOWNLOAD_COOLDOWN \<longrightarrow>
         fst (select_song env c now parsed ?st) =
           [Reply_text (please_wait_text
              (int_total_seconds (DOWNLOAD_COOLDOWN - (now - last_download_of ?st c))))] \<and>
         fst (download_page envs c now ?st) =
           [Reply_text (please_wait_text
              (int_total_seconds (DOWNLOAD_COOLDOWN - (now - last_download_of ?st c))))]"
    by (simp add: select_song_denied download_page_denied)
  show ?thesis
    unfolding Let_def using A B C by (intro conjI)
qed

lemma after_first_request_results: "search_results after_first_request 7 = None"
  by (simp add: after_first_request_def select_song_state initial_def)

theorem stale_requests_answered_counterexample:
  "search_results after_first_request 7 = None \<and>
   fst (select_song example_download 7 63929304010000000 (Inr 0) after_first_request) =
     [Reply_text (please_wait_text 20)] \<and>
   please_wait_text 20 \<noteq> session_expired_text"
  by (simp add: after_first_request_results select_song_denied after_first_request_last
      DOWNLOAD_COOLDOWN_def int_total_seconds_def please_wait_text_differs)

theorem stale_requests_answered_witness:
  "handle_pagination found_search 7 Next_page after_first_request =
     ([Reply_text session_expired_text], after_first_request) \<and>
   fst (select_song example_download 7 63929304030000000 (Inr 0) after_first_request) =
     [Reply_text session_expired_text] \<and>
   fst (download_page (\<lambda>k. example_download) 7 63929304030000000 after_first_request) =
     [Reply_text session_expired_text] \<and>
   fst (download_page (\<lambda>k. example_download) 7 63929304010000000 after_first_request) =
     [Reply_text (please_wait_text 20)] \<and>
   fst (select_song example_download 7 63929304000000000 (Inr 12) after_search) =
     [Reply_text (select_error_text index_error_text)] \<and>
   fst (select_song example_download 7 63929304000000000 (Inr (- 13)) after_search) =
     [Reply_text (select_error_text index_error_text)]"
proof -
  have none: "search_results (run [(7, Select example_download 63929304000000000 (Inr 0))] initial) 7 =
      None"
    using after_first_request_results by (simp only: after_first_request_def)
  have last: "last_download_of (run [(7, Select example_download 63929304000000000 (Inr 0))] initial) 7 =
      63929304000000000"
    using after_first_request_last by (simp only: after_first_request_def)
  have some: "search_results (run [(7, Search found_search (ascii ''Imagine''))] initial) 7 =
      Some (replicate 12 example_track)"
    using after_search_state(1) by (simp only: after_search_def)
  have last2: "last_download_of (run [(7, Search found_search (ascii ''Imagine''))] initial) 7 =
      datetime_min"
    using after_search_last by (simp only: after_search_def)
  note s1 = stale_requests_answered [of "[(7, Select example_download 63929304000000000 (Inr 0))]" 7
      63929304030000000 found_search Next_page example_download "Inr 0" "\<lambda>k. example_download",
      unfolded Let_def last]
  from s1 none have a: "handle_pagination found_search 7 Next_page after_first_request =
       ([Reply_text session_expired_text], after_first_request) \<and>
     fst (select_song example_download 7 63929304030000000 (Inr 0) after_first_request) =
       [Reply_text session_expired_text] \<and>
     fst (download_page (\<lambda>k. example_download) 7 63929304030000000 after_first_request) =
       [Reply_text session_expired_text]"
    unfolding after_first_request_def by (simp add: DOWNLOAD_COOLDOWN_def)
  note s2 = stale_requests_answered [of "[(7, Select example_download 63929304000000000 (Inr 0))]" 7
      63929304010000000 found_search Next_page example_download "Inr 0" "\<lambda>k. example_download",
      unfolded Let_def last]
  from s2 have b: "fst (download_page (\<lambda>k. example_download) 7 63929304010000000
       after_first_request) = [Reply_text (please_wait_text 20)]"
    unfolding after_first_request_def
    by (simp add: DOWNLOAD_COOLDOWN_def int_total_seconds_def)
  note s3 = stale_requests_answered [of "[(7, Search found_search (ascii ''Imagine''))]" 7
      63929304000000000 found_search Next_page example_download "Inr 0" "\<lambda>k. example_download",
      unfolded Let_def last2]
  from s3 have all: "\<forall>results i.
      search_results (run [(7, Search found_search (ascii ''Imagine''))] initial) 7 =
        Some results \<and>
      DOWNLOAD_COOLDOWN \<le> 63929304000000000 - datetime_min \<and>
      (int (length results) \<le> i \<or> i < - int (length results)) \<longrightarrow>
      fst (select_song example_download 7 63929304000000000 (Inr i)
        (run [(7, Search found_search (ascii ''Imagine''))] initial)) =
        [Reply_text (select_error_text index_error_text)]"
    by blast
  have gate: "DOWNLOAD_COOLDOWN \<le> 63929304000000000 - datetime_min"
    by (simp add: DOWNLOAD_COOLDOWN_def datetime_min_def)
  from all [rule_format, of "replicate 12 example_track" 12] some gate
  have c: "fst (select_song example_download 7 63929304000000000 (Inr 12) after_search) =
      [Reply_text (select_error_text index_error_text)]"
    unfolding after_search_def by simp
  from all [rule_format, of "replicate 12 example_track" "- 13"] some gate
  have d: "fst (select_song example_download 7 63929304000000000 (Inr (- 13)) after_search) =
      [Reply_text (select_error_text index_error_text)]"
    unfolding after_search_def by simp
  from a b c d show ?thesis by blast
qed


section \<open>The download\<close>










lemma download_tool_failure:
  "create_seconds env \<le> 5 \<Longrightarrow> create_raises env = None \<Longrightarrow>
   communicate_seconds env \<le> 60 \<Longrightarrow> returncode env \<noteq> 0 \<Longrightarrow>
   stderr_decoded env = Inr stderr_text \<Longrightarrow>
   download_and_send_audio env url title performer cap qm =
     [Create_subprocess (spotdl_command url (tmpdirname env)), Communicate,
      notify qm (download_failed_text stderr_text)]"
  by (simp add: download_and_send_audio_def Let_def wait_for_def SPOTDL_TIMEOUT_def)

lemma download_startup_timeout:
  "5 < create_seconds env \<Longrightarrow>
   download_and_send_audio env url title performer cap qm =
     [Create_subprocess (spotdl_command url (tmpdirname env)),
      notify qm setup_timed_out_text]"
  by (simp add: download_and_send_audio_def Let_def wait_for_def)

lemma download_execution_timeout:
  "create_seconds env \<le> 5 \<Longrightarrow> create_raises env = None \<Longrightarrow>
   60 < communicate_seconds env \<Longrightarrow>
   download_and_send_audio env url title performer cap qm =
     [Create_subprocess (spotdl_command url (tmpdirname env)), Communicate, Kill,
      notify qm timed_out_text]"
  by (simp add: download_and_send_audio_def Let_def wait_for_def SPOTDL_TIMEOUT_def)

lemma download_kill:
  "Kill \<in> set (download_and_send_audio env url title performer cap qm) \<longleftrightarrow>
   create_seconds env \<le> 5 \<and> create_raises env = None \<and> 60 < communicate_seconds env"
  by (auto simp: download_and_send_audio_def Let_def wait_for_def SPOTDL_TIMEOUT_def
      notify_def split: option.splits sum.splits if_splits)

lemma timeout_texts_differ: "notify qm setup_timed_out_text \<noteq> notify qm timed_out_text"
  by (simp add: notify_def setup_timed_out_text_def timed_out_text_def ascii_def)

text \<open>
  Claim C5. A download waits twice, each time with its own limit. If creating the
  subprocess takes longer than 5 seconds, the only reply is "Download setup timed out."
  and the handler returns without communicating with a process. If the process was
  created in time and does not end within 60 seconds (\<open>SPOTDL_TIMEOUT\<close>), it is killed and
  the only reply is "Download timed out after 60 seconds."; a process is killed in this
  case only. The two replies are different messages.
\<close>

theorem two_timeouts:
  "let acts = download_and_send_audio env url title performer cap qm;
       command = spotdl_command url (tmpdirname env)
   in (5 < create_seconds env \<longrightarrow>
         acts = [Create_subprocess command, notify qm setup_timed_out_text]) \<and>
      (create_seconds env \<le> 5 \<and> create_raises env = None \<and>
       SPOTDL_TIMEOUT < communicate_seconds env \<longrightarrow>
         acts = [Create_subprocess command, Communicate, Kill, notify qm timed_out_text]) \<and>
      (Kill \<in> set acts \<longleftrightarrow>
         create_seconds env \<le> 5 \<and> create_raises env = None \<and>
         SPOTDL_TIMEOUT < communicate_seconds env) \<and>
      SPOTDL_TIMEOUT = 60 \<and>
      notify qm setup_timed_out_text \<noteq> notify qm timed_out_text"
  unfolding Let_def
  using download_startup_timeout [of env url title performer cap qm]
    download_execution_timeout [of env url title performer cap qm]
    download_kill [of env url title performer cap qm]
    timeout_texts_differ [of qm]
  by (simp add: SPOTDL_TIMEOUT_def)

lemma download_failed_text_length:
  "length (download_failed_text stderr_text) = 21 + length stderr_text"
  by (simp add: download_failed_text_def ascii_def)

text \<open>
  Claim C2, amended. When the subprocess was created and ended in time with a return code
  other than zero, and its error stream decodes to a text, the only reply is "Download
  failed:" followed on the next line by the whole error text between two backquotes. The
  text is not shortened: the reply has 21 characters more than the error text.
\<close>

theorem tool_failure_text:
  "create_seconds env \<le> 5 \<Longrightarrow> create_raises env = None \<Longrightarrow>
   communicate_seconds env \<le> 60 \<Longrightarrow> returncode env \<noteq> 0 \<Longrightarrow>
   stderr_decoded env = Inr stderr_text \<Longrightarrow>
   download_and_send_audio env url title performer cap qm =
     [Create_subprocess (spotdl_command url (tmpdirname env)), Communicate,
      notify qm (download_failed_text stderr_text)] \<and>
   download_failed_text stderr_text =
     [0x274C] @ ascii '' Download failed:'' @ [0x0A, 0x60] @ stderr_text @ [0x60] \<and>
   length (download_failed_text stderr_text) = 21 + length stderr_text"
  using download_tool_failure [of env stderr_text url title performer cap qm]
  by (simp add: download_failed_text_length) (simp add: download_failed_text_def)

theorem tool_failure_text_counterexample:
  "\<not> (\<exists>bound. \<forall>stderr_text.
        \<forall>msg. Reply_text msg \<in> set (download_and_send_audio
                (failing_download\<lparr>stderr_decoded := Inr stderr_text\<rparr>) [] [] [] None True) \<longrightarrow>
          length msg \<le> bound)"
proof
  assume "\<exists>bound. \<forall>stderr_text.
        \<forall>msg. Reply_text msg \<in> set (download_and_send_audio
                (failing_download\<lparr>stderr_decoded := Inr stderr_text\<rparr>) [] [] [] None True) \<longrightarrow>
          length msg \<le> bound"
  then obtain bound where b: "\<And>stderr_text msg. Reply_text msg \<in> set (download_and_send_audio
        (failing_download\<lparr>stderr_decoded := Inr stderr_text\<rparr>) [] [] [] None True) \<Longrightarrow>
      length msg \<le> bound"
    by blast
  let ?long = "replicate bound (120::nat)"
  have "download_and_send_audio (failing_download\<lparr>stderr_decoded := Inr ?long\<rparr>)
      [] [] [] None True =
    [Create_subprocess (spotdl_command [] (tmpdirname (failing_download\<lparr>stderr_decoded := Inr ?long\<rparr>))),
     Communicate, notify True (download_failed_text ?long)]"
    by (rule download_tool_failure) (simp_all add: failing_download_def example_download_def)
  then have "Reply_text (download_failed_text ?long) \<in> set (download_and_send_audio
      (failing_download\<lparr>stderr_decoded := Inr ?long\<rparr>) [] [] [] None True)"
    by (simp add: notify_def)
  from b [OF this] show False
    by (simp add: download_failed_text_length)
qed

theorem two_timeouts_witness:
  "download_and_send_audio slow_start (ascii ''u'') (ascii ''t'') (ascii ''p'') None True =
     [Create_subprocess (spotdl_command (ascii ''u'') (ascii ''/tmp/tmpk3v9'')),
      Reply_text setup_timed_out_text] \<and>
   download_and_send_audio slow_run (ascii ''u'') (ascii ''t'') (ascii ''p'') None True =
     [Create_subprocess (spotdl_command (ascii ''u'') (ascii ''/tmp/tmpk3v9'')),
      Communicate, Kill, Reply_text timed_out_text] \<and>
   Kill \<notin> set (download_and_send_audio slow_start (ascii ''u'') (ascii ''t'') (ascii ''p'')
     None True)"
proof -
  have a: "5 < create_seconds slow_start" "tmpdirname slow_start = ascii ''/tmp/tmpk3v9''"
    by (simp_all add: slow_start_def example_download_def)
  have b: "create_seconds slow_run \<le> 5" "create_raises slow_run = None"
    "SPOTDL_TIMEOUT < communicate_seconds slow_run"
    "tmpdirname slow_run = ascii ''/tmp/tmpk3v9''"
    by (simp_all add: slow_run_def example_download_def SPOTDL_TIMEOUT_def)
  from two_timeouts [of slow_start "ascii ''u''" "ascii ''t''" "ascii ''p''" None True] a
  have x: "download_and_send_audio slow_start (ascii ''u'') (ascii ''t'') (ascii ''p'') None True =
     [Create_subprocess (spotdl_command (ascii ''u'') (ascii ''/tmp/tmpk3v9'')),
      Reply_text setup_timed_out_text] \<and>
     Kill \<notin> set (download_and_send_audio slow_start (ascii ''u'') (ascii ''t'') (ascii ''p'')
       None True)"
    unfolding Let_def by (simp add: notify_def)
  from two_timeouts [of slow_run "ascii ''u''" "ascii ''t''" "ascii ''p''" None True] b
  have y: "download_and_send_audio slow_run (ascii ''u'') (ascii ''t'') (ascii ''p'') None True =
     [Create_subprocess (spotdl_command (ascii ''u'') (ascii ''/tmp/tmpk3v9'')),
      Communicate, Kill, Reply_text timed_out_text]"
    unfolding Let_def by (simp add: notify_def)
  from x y show ?thesis by blast
qed

theorem tool_failure_text_witness:
  "download_and_send_audio failing_download (ascii ''u'') (ascii ''t'') (ascii ''p'') None True =
     [Create_subprocess (spotdl_command (ascii ''u'') (ascii ''/tmp/tmpk3v9'')), Communicate,
      Reply_text (download_failed_text (ascii ''LookupError: no results''))] \<and>
   length (download_failed_text (ascii ''LookupError: no results'')) = 44"
proof -
  have a: "create_seconds failing_download \<le> 5" "create_raises failing_download = None"
    "communicate_seconds failing_download \<le> 60" "returncode failing_download \<noteq> 0"
    "stderr_decoded failing_download = Inr (ascii ''LookupError: no results'')"
    by (simp_all add: failing_download_def example_download_def)
  have t: "tmpdirname failing_download = ascii ''/tmp/tmpk3v9''"
    by (simp add: failing_download_def example_download_def)
  from tool_failure_text [OF a, of "ascii ''u''" "ascii ''t''" "ascii ''p''" None True]
  show ?thesis
    unfolding t by (simp add: notify_def ascii_def)
qed


















section \<open>The page after a page turn\<close>









end
